theory Spec2Isabelle
  imports Main
begin

section \<open>JavaScript values and JSON documents\<close>

text \<open>
  The server modelled is \<^verbatim>\<open>src/index.ts\<close> in its latest revision: the one that declares
  the interfaces \<^verbatim>\<open>Space\<close>, \<^verbatim>\<open>Folder\<close>, \<^verbatim>\<open>List\<close>, \<^verbatim>\<open>Member\<close> and \<^verbatim>\<open>Task\<close>, and whose
  \<^verbatim>\<open>hierarchy\<close> maps an \<^verbatim>\<open>async\<close> callback over the spaces. (The earlier revision in the
  same file fetches the spaces one after the other, and the legacy \<^verbatim>\<open>index.js\<close> is a
  smaller server without members, due dates or filters; neither is modelled.)

  The server reads untyped JSON from the upstream API, so run-time values are modelled
  dynamically. Numbers are the integers (identifiers and epoch-millisecond timestamps)
  and \<open>NaN\<close>; fractions and infinities are outside the model. The two conversions of
  the platform between numbers and strings, \<^verbatim>\<open>Number\<close> and \<^verbatim>\<open>String\<close>, are parameters of
  the handlers that use them, so every property holds whatever they compute. Strings are
  byte strings (UTF-8). An object is its property list in insertion order, one entry per
  key.
\<close>

datatype jsval =
    Undefined
  | Null
  | Bool bool
  | Num int
  | NaN
  | Str string
  | Arr "jsval list"
  | Obj "(string \<times> jsval) list"

text \<open>A JSON document: what \<^verbatim>\<open>JSON.stringify\<close> prints, up to the layout of the text.\<close>

datatype jdoc =
    JNull
  | JBool bool
  | JNum int
  | JStr string
  | JArr "jdoc list"
  | JObj "(string \<times> jdoc) list"

datatype error =
    Error string  \<comment> \<open>\<^verbatim>\<open>new Error(message)\<close>\<close>
  | TypeError     \<comment> \<open>property read on \<^verbatim>\<open>null\<close>/\<^verbatim>\<open>undefined\<close>, call of a non-function\<close>
  | SyntaxError   \<comment> \<open>\<^verbatim>\<open>res.json()\<close> on a body that is not JSON\<close>
  | FetchFailed   \<comment> \<open>\<^verbatim>\<open>fetch\<close> rejects: no HTTP response at all\<close>

text \<open>
  \<^verbatim>\<open>JSON.stringify\<close>: \<^verbatim>\<open>undefined\<close> has no JSON text; a property whose value is
  \<^verbatim>\<open>undefined\<close> is left out; an array element that is \<^verbatim>\<open>undefined\<close> prints as \<^verbatim>\<open>null\<close>;
  \<open>NaN\<close> prints as \<^verbatim>\<open>null\<close>.
\<close>

fun stringify :: "jsval \<Rightarrow> jdoc option"
  and stringify_elems :: "jsval list \<Rightarrow> jdoc list"
  and stringify_props :: "(string \<times> jsval) list \<Rightarrow> (string \<times> jdoc) list"
where
  "stringify Undefined = None"
| "stringify Null = Some JNull"
| "stringify (Bool b) = Some (JBool b)"
| "stringify (Num n) = Some (JNum n)"
| "stringify NaN = Some JNull"
| "stringify (Str s) = Some (JStr s)"
| "stringify (Arr xs) = Some (JArr (stringify_elems xs))"
| "stringify (Obj ps) = Some (JObj (stringify_props ps))"
| "stringify_elems [] = []"
| "stringify_elems (x # xs) =
     (case stringify x of None \<Rightarrow> JNull | Some j \<Rightarrow> j) # stringify_elems xs"
| "stringify_props [] = []"
| "stringify_props (p # ps) =
     (case stringify (snd p) of
        None \<Rightarrow> stringify_props ps
      | Some j \<Rightarrow> (fst p, j) # stringify_props ps)"

text \<open>Truthiness, as \<^verbatim>\<open>||\<close>, \<^verbatim>\<open>!\<close>, \<^verbatim>\<open>?:\<close> and \<^verbatim>\<open>if\<close> test it.\<close>

fun truthy :: "jsval \<Rightarrow> bool" where
  "truthy Undefined = False"
| "truthy Null = False"
| "truthy (Bool b) = b"
| "truthy (Num n) = (n \<noteq> 0)"
| "truthy NaN = False"
| "truthy (Str s) = (s \<noteq> [])"
| "truthy (Arr xs) = True"
| "truthy (Obj ps) = True"

text \<open>
  A property read \<^verbatim>\<open>v.k\<close>, for the property names the handlers read (none of them is
  inherited from a prototype): it throws on \<^verbatim>\<open>null\<close> and \<^verbatim>\<open>undefined\<close>, and is
  \<^verbatim>\<open>undefined\<close> where the property is missing.
\<close>

fun get :: "jsval \<Rightarrow> string \<Rightarrow> error + jsval" where
  "get Undefined k = Inl TypeError"
| "get Null k = Inl TypeError"
| "get (Obj ps) k = Inr (case map_of ps k of None \<Rightarrow> Undefined | Some v \<Rightarrow> v)"
| "get v k = Inr Undefined"

text \<open>Sequencing of computations that may throw.\<close>

definition bindE :: "error + 'a \<Rightarrow> ('a \<Rightarrow> error + 'b) \<Rightarrow> error + 'b" where
  "bindE r f = (case r of Inl e \<Rightarrow> Inl e | Inr a \<Rightarrow> f a)"

text \<open>Optional chaining \<^verbatim>\<open>v?.k\<close>.\<close>

fun opt_get :: "jsval \<Rightarrow> string \<Rightarrow> error + jsval" where
  "opt_get Undefined k = Inr Undefined"
| "opt_get Null k = Inr Undefined"
| "opt_get v k = get v k"

text \<open>
  \<^verbatim>\<open>xs.map(f)\<close> with a callback that may throw: the first element on which it throws ends
  the call.
\<close>

fun mapE :: "('a \<Rightarrow> error + 'b) \<Rightarrow> 'a list \<Rightarrow> error + 'b list" where
  "mapE f [] = Inr []"
| "mapE f (x # xs) =
     (case f x of
        Inl e \<Rightarrow> Inl e
      | Inr y \<Rightarrow> (case mapE f xs of Inl e \<Rightarrow> Inl e | Inr ys \<Rightarrow> Inr (y # ys)))"

text \<open>\<^verbatim>\<open>v.map(f)\<close>: only an array has the method.\<close>

fun js_map :: "(jsval \<Rightarrow> error + jsval) \<Rightarrow> jsval \<Rightarrow> error + jsval" where
  "js_map f (Arr xs) = (case mapE f xs of Inl e \<Rightarrow> Inl e | Inr ys \<Rightarrow> Inr (Arr ys))"
| "js_map f Undefined = Inl TypeError"
| "js_map f Null = Inl TypeError"
| "js_map f (Bool b) = Inl TypeError"
| "js_map f (Num n) = Inl TypeError"
| "js_map f NaN = Inl TypeError"
| "js_map f (Str s) = Inl TypeError"
| "js_map f (Obj ps) = Inl TypeError"

text \<open>\<^verbatim>\<open>v?.map(f)\<close>.\<close>

fun opt_map :: "(jsval \<Rightarrow> error + jsval) \<Rightarrow> jsval \<Rightarrow> error + jsval" where
  "opt_map f Undefined = Inr Undefined"
| "opt_map f Null = Inr Undefined"
| "opt_map f v = js_map f v"

text \<open>\<^verbatim>\<open>a || b\<close>.\<close>

definition js_or :: "jsval \<Rightarrow> jsval \<Rightarrow> jsval" where
  "js_or a b = (if truthy a then a else b)"

text \<open>An optional argument of a tool: \<^verbatim>\<open>undefined\<close> when the caller left it out.\<close>

definition str_arg :: "string option \<Rightarrow> jsval" where
  "str_arg a = (case a of None \<Rightarrow> Undefined | Some s \<Rightarrow> Str s)"

definition num_arg :: "int option \<Rightarrow> jsval" where
  "num_arg a = (case a of None \<Rightarrow> Undefined | Some n \<Rightarrow> Num n)"

text \<open>
  \<^verbatim>\<open>v.slice(0, n)\<close>: arrays and strings have the method (a string is cut in bytes here;
  the handlers only ever call \<^verbatim>\<open>.map\<close> on the result, which a string does not have).
\<close>

fun slice0 :: "nat \<Rightarrow> jsval \<Rightarrow> error + jsval" where
  "slice0 n (Arr xs) = Inr (Arr (take n xs))"
| "slice0 n (Str s) = Inr (Str (take n s))"
| "slice0 n Undefined = Inl TypeError"
| "slice0 n Null = Inl TypeError"
| "slice0 n (Bool b) = Inl TypeError"
| "slice0 n (Num k) = Inl TypeError"
| "slice0 n NaN = Inl TypeError"
| "slice0 n (Obj ps) = Inl TypeError"

subsection \<open>Numbers and strings\<close>

text \<open>Decimal digits of a natural number, as a template literal prints \<^verbatim>\<open>res.status\<close>.\<close>

definition digit :: "nat \<Rightarrow> char" where
  "digit n = ''0123456789'' ! (n mod 10)"

fun decimal :: "nat \<Rightarrow> string" where
  "decimal n = (if n < 10 then [digit n] else decimal (n div 10) @ [digit n])"

declare decimal.simps [simp del]

text \<open>
  The text a template literal \<^verbatim>\<open>${v}\<close> inserts: an array is its elements joined by
  commas, \<^verbatim>\<open>null\<close> and \<^verbatim>\<open>undefined\<close> elements printing as nothing. How the platform
  prints a number (\<^verbatim>\<open>String(n)\<close>: plain digits for the safe integers, rounded digits
  beyond them, exponent notation from \<open>10^21\<close>) is the parameter \<open>String\<close>: nothing is
  assumed of it.
\<close>

fun to_string :: "(int \<Rightarrow> string) \<Rightarrow> jsval \<Rightarrow> string"
  and join_elems :: "(int \<Rightarrow> string) \<Rightarrow> jsval list \<Rightarrow> string"
where
  "to_string String Undefined = ''undefined''"
| "to_string String Null = ''null''"
| "to_string String (Bool b) = (if b then ''true'' else ''false'')"
| "to_string String (Num n) = String n"
| "to_string String NaN = ''NaN''"
| "to_string String (Str s) = s"
| "to_string String (Arr xs) = join_elems String xs"
| "to_string String (Obj ps) = ''[object Object]''"
| "join_elems String [] = []"
| "join_elems String (x # xs) =
     (case x of Undefined \<Rightarrow> [] | Null \<Rightarrow> [] | _ \<Rightarrow> to_string String x)
     @ (if xs = [] then [] else CHR '','' # join_elems String xs)"

section \<open>The HTTP client wrapper\<close>

text \<open>
  Process-wide configuration: \<^verbatim>\<open>process.env.CLICKUP_API_TOKEN\<close> (the process exits at
  start-up when it is missing) and \<^verbatim>\<open>process.env.CLICKUP_TEAM_ID\<close>, which may be unset.
\<close>

record config =
  TOKEN :: string
  DEFAULT_TEAM :: "string option"

record request =
  req_method :: string
  req_url :: string
  req_headers :: "(string \<times> string) list"
  req_body :: "jdoc option"  \<comment> \<open>the JSON text sent, \<open>None\<close> when no body is sent\<close>

text \<open>
  What \<^verbatim>\<open>fetch\<close> resolves with: the status, the body as \<^verbatim>\<open>res.text()\<close> reads it and as
  \<^verbatim>\<open>res.json()\<close> parses it (\<open>None\<close> when the body is not JSON).
\<close>

record response =
  res_status :: nat
  res_text :: string
  res_json :: "jsval option"

datatype fetched = Rejected | Responded response

text \<open>
  The upstream service answers a request knowing the requests this process has issued
  before it (earliest first), so it may answer the same request differently over time.
\<close>

type_synonym upstream = "request list \<Rightarrow> request \<Rightarrow> fetched"

definition API :: string where
  "API = ''https://api.clickup.com/api/v2''"

definition headers :: "config \<Rightarrow> (string \<times> string) list" where
  "headers cfg = [(''Authorization'', TOKEN cfg), (''Content-Type'', ''application/json'')]"

text \<open>\<^verbatim>\<open>res.ok\<close>.\<close>

definition ok :: "response \<Rightarrow> bool" where
  "ok res = (200 \<le> res_status res \<and> res_status res \<le> 299)"

text \<open>The request \<^verbatim>\<open>api\<close> hands to \<^verbatim>\<open>fetch\<close>.\<close>

definition api_request :: "config \<Rightarrow> string \<Rightarrow> string \<Rightarrow> jsval option \<Rightarrow> request" where
  "api_request cfg m p b =
     \<lparr>req_method = m, req_url = API @ p, req_headers = headers cfg,
      req_body = (case b of None \<Rightarrow> None | Some v \<Rightarrow> if truthy v then stringify v else None)\<rparr>"

text \<open>What \<^verbatim>\<open>api\<close> makes of the outcome of \<^verbatim>\<open>fetch\<close>.\<close>

definition api_response :: "fetched \<Rightarrow> error + jsval" where
  "api_response f =
     (case f of
        Rejected \<Rightarrow> Inl FetchFailed
      | Responded res \<Rightarrow>
          if \<not> ok res then Inl (Error (decimal (res_status res) @ '': '' @ res_text res))
          else if res_status res = 204 then Inr (Obj [])
          else (case res_json res of None \<Rightarrow> Inl SyntaxError | Some v \<Rightarrow> Inr v))"

text \<open>
  \<^verbatim>\<open>api(method, path, body)\<close>: one request, appended to the log of issued requests, and
  the settled result.
\<close>

definition api ::
  "config \<Rightarrow> upstream \<Rightarrow> string \<Rightarrow> string \<Rightarrow> jsval option \<Rightarrow> request list
    \<Rightarrow> (error + jsval) \<times> request list" where
  "api cfg up m p b lg =
     (let req = api_request cfg m p b
      in (api_response (up lg req), lg @ [req]))"

text \<open>
  \<^verbatim>\<open>json(data)\<close>: the text payload of a tool result, \<^verbatim>\<open>JSON.stringify(data, null, 2)\<close>.
\<close>

definition json :: "jsval \<Rightarrow> jdoc option" where
  "json data = stringify data"

subsection \<open>Query strings\<close>

text \<open>
  \<^verbatim>\<open>URLSearchParams\<close> prints as \<^verbatim>\<open>application/x-www-form-urlencoded\<close>: letters, digits
  and \<^verbatim>\<open>*-._\<close> stay, a space is \<^verbatim>\<open>+\<close>, every other byte is \<^verbatim>\<open>%XX\<close>.
\<close>

definition hex_digit :: "nat \<Rightarrow> char" where
  "hex_digit n = ''0123456789ABCDEF'' ! (n mod 16)"

definition unreserved :: "char \<Rightarrow> bool" where
  "unreserved c =
     (c \<in> set ''ABCDEFGHIJKLMNOPQRSTUVWXYZabcdefghijklmnopqrstuvwxyz0123456789*-._'')"

definition urlencode_byte :: "char \<Rightarrow> string" where
  "urlencode_byte c =
     (if c = CHR '' '' then ''+''
      else if unreserved c then [c]
      else [CHR ''%'', hex_digit (of_char c div 16), hex_digit (of_char c mod 16)])"

definition urlencode :: "string \<Rightarrow> string" where
  "urlencode s = concat (map urlencode_byte s)"

fun URLSearchParams_toString :: "(string \<times> string) list \<Rightarrow> string" where
  "URLSearchParams_toString [] = []"
| "URLSearchParams_toString (p # ps) =
     urlencode (fst p) @ ''='' @ urlencode (snd p)
     @ (if ps = [] then [] else CHR ''&'' # URLSearchParams_toString ps)"

section \<open>Response shaping\<close>

text \<open>\<^verbatim>\<open>(l) => ({ id: l.id, name: l.name })\<close>\<close>

definition list_item :: "jsval \<Rightarrow> error + jsval" where
  "list_item l =
     bindE (get l ''id'') (\<lambda>i.
     bindE (get l ''name'') (\<lambda>n.
     Inr (Obj [(''id'', i), (''name'', n)])))"

text \<open>
  \<^verbatim>\<open>(f) => ({ id: f.id, name: f.name, lists: (f.lists || []).map(...) })\<close>
\<close>

definition folder_item :: "jsval \<Rightarrow> error + jsval" where
  "folder_item f =
     bindE (get f ''id'') (\<lambda>i.
     bindE (get f ''name'') (\<lambda>n.
     bindE (bindE (get f ''lists'') (\<lambda>ls. js_map list_item (js_or ls (Arr [])))) (\<lambda>lists.
     Inr (Obj [(''id'', i), (''name'', n), (''lists'', lists)]))))"

text \<open>The record of one space, built once its two fetches have resolved.\<close>

definition space_item :: "jsval \<Rightarrow> jsval \<Rightarrow> jsval \<Rightarrow> error + jsval" where
  "space_item sp foldersRes listsRes =
     bindE (get sp ''id'') (\<lambda>i.
     bindE (get sp ''name'') (\<lambda>n.
     bindE (bindE (get foldersRes ''folders'')
              (\<lambda>fs. js_map folder_item (js_or fs (Arr [])))) (\<lambda>folders.
     bindE (bindE (get listsRes ''lists'')
              (\<lambda>ls. js_map list_item (js_or ls (Arr [])))) (\<lambda>lists.
     Inr (Obj [(''id'', i), (''name'', n), (''folders'', folders), (''lists'', lists)])))))"

text \<open>
  \<^verbatim>\<open>(m) => ({ id: m.user.id, name: m.user.username, email: m.user.email })\<close>
\<close>

definition member_item :: "jsval \<Rightarrow> error + jsval" where
  "member_item m =
     bindE (bindE (get m ''user'') (\<lambda>u. get u ''id'')) (\<lambda>i.
     bindE (bindE (get m ''user'') (\<lambda>u. get u ''username'')) (\<lambda>n.
     bindE (bindE (get m ''user'') (\<lambda>u. get u ''email'')) (\<lambda>e.
     Inr (Obj [(''id'', i), (''name'', n), (''email'', e)]))))"

text \<open>\<^verbatim>\<open>(teamInfo.team?.members || []).map(...)\<close>\<close>

definition members_of :: "jsval \<Rightarrow> error + jsval" where
  "members_of teamInfo =
     bindE (bindE (get teamInfo ''team'') (\<lambda>t. opt_get t ''members''))
       (\<lambda>ms. js_map member_item (js_or ms (Arr [])))"

text \<open>\<^verbatim>\<open>(a) => ({ id: a.id, name: a.username })\<close>\<close>

definition assignee_item :: "jsval \<Rightarrow> error + jsval" where
  "assignee_item a =
     bindE (get a ''id'') (\<lambda>i.
     bindE (get a ''username'') (\<lambda>n.
     Inr (Obj [(''id'', i), (''name'', n)])))"

text \<open>\<^verbatim>\<open>(t) => t.name\<close>\<close>

definition tag_name :: "jsval \<Rightarrow> error + jsval" where
  "tag_name t = get t ''name''"

text \<open>
  The compact task of \<^verbatim>\<open>search\<close>. The platform's \<^verbatim>\<open>Number\<close> conversion is a parameter:
  nothing is assumed of what it makes of a due date.
\<close>

definition search_item :: "(jsval \<Rightarrow> jsval) \<Rightarrow> jsval \<Rightarrow> error + jsval" where
  "search_item Number task =
     bindE (get task ''id'') (\<lambda>i.
     bindE (get task ''name'') (\<lambda>n.
     bindE (bindE (get task ''status'') (\<lambda>s. opt_get s ''status'')) (\<lambda>st.
     bindE (bindE (get task ''assignees'') (opt_map assignee_item)) (\<lambda>assignees.
     bindE (get task ''due_date'') (\<lambda>due_date.
     bindE (get task ''url'') (\<lambda>url.
     Inr (Obj [(''id'', i), (''name'', n), (''status'', st), (''assignees'', assignees),
               (''due'', if truthy due_date then Number due_date else Null),
               (''url'', url)])))))))"

text \<open>The full task of \<^verbatim>\<open>task\<close>.\<close>

definition task_item :: "(jsval \<Rightarrow> jsval) \<Rightarrow> jsval \<Rightarrow> error + jsval" where
  "task_item Number task =
     bindE (get task ''id'') (\<lambda>i.
     bindE (get task ''name'') (\<lambda>n.
     bindE (get task ''description'') (\<lambda>desc.
     bindE (bindE (get task ''status'') (\<lambda>s. opt_get s ''status'')) (\<lambda>st.
     bindE (bindE (get task ''priority'') (\<lambda>p. opt_get p ''priority'')) (\<lambda>priority.
     bindE (bindE (get task ''tags'') (opt_map tag_name)) (\<lambda>tags.
     bindE (bindE (get task ''assignees'') (opt_map assignee_item)) (\<lambda>assignees.
     bindE (get task ''due_date'') (\<lambda>due_date.
     bindE (get task ''url'') (\<lambda>url.
     Inr (Obj [(''id'', i), (''name'', n), (''desc'', desc), (''status'', st),
               (''priority'', priority), (''tags'', tags), (''assignees'', assignees),
               (''due'', if truthy due_date then Number due_date else Null),
               (''url'', url)]))))))))))"

section \<open>Tool handlers\<close>

text \<open>
  A handler takes the log of the requests issued so far and returns its settled result
  with the extended log. \<open>Inl\<close> is a rejection, \<open>Inr\<close> the text payload of the reply.
\<close>

definition team_required :: error where
  "team_required = Error ''team required (or set CLICKUP_TEAM_ID)''"

subsection \<open>hierarchy\<close>

text \<open>
  \<^verbatim>\<open>Promise.all\<close> resolves when every promise has resolved, and rejects with the reason
  of whichever promise rejects first in time. Time is not modelled: a rejection carries
  the reasons of all the promises that reject, and the call rejects with one of them.
\<close>

definition Promise_all2 :: "error + 'a \<Rightarrow> error + 'b \<Rightarrow> error list + ('a \<times> 'b)" where
  "Promise_all2 p q =
     (case p of
        Inr a \<Rightarrow> (case q of Inr b \<Rightarrow> Inr (a, b) | Inl e \<Rightarrow> Inl [e])
      | Inl e \<Rightarrow> (case q of Inr b \<Rightarrow> Inl [e] | Inl e' \<Rightarrow> Inl [e, e']))"

fun Promise_all :: "(error list + 'a) list \<Rightarrow> error list + 'a list" where
  "Promise_all [] = Inr []"
| "Promise_all (p # ps) =
     (case p of
        Inr a \<Rightarrow> (case Promise_all ps of Inr as \<Rightarrow> Inr (a # as) | Inl es \<Rightarrow> Inl es)
      | Inl es \<Rightarrow> (case Promise_all ps of Inr as \<Rightarrow> Inl es | Inl es' \<Rightarrow> Inl (es @ es')))"

text \<open>
  The callback of \<^verbatim>\<open>.map(async (sp) => ...)\<close>: it issues the folder fetch and the list
  fetch of the space one after the other, before either is answered, and builds the
  record when both have resolved. Reading \<^verbatim>\<open>sp.id\<close> throws before any request when
  \<^verbatim>\<open>sp\<close> is \<^verbatim>\<open>null\<close>.
\<close>

definition space_branch ::
  "config \<Rightarrow> (int \<Rightarrow> string) \<Rightarrow> upstream \<Rightarrow> jsval \<Rightarrow> request list \<Rightarrow> (error list + jsval) \<times> request list" where
  "space_branch cfg String up sp lg =
     (case get sp ''id'' of
        Inl e \<Rightarrow> (Inl [e], lg)
      | Inr spid \<Rightarrow>
          (let (p1, lg1) =
                 api cfg up ''GET'' (''/space/'' @ to_string String spid @ ''/folder?archived=false'') None lg;
               (p2, lg2) =
                 api cfg up ''GET'' (''/space/'' @ to_string String spid @ ''/list?archived=false'') None lg1
           in (case Promise_all2 p1 p2 of
                 Inl es \<Rightarrow> (Inl es, lg2)
               | Inr (foldersRes, listsRes) \<Rightarrow>
                   (case space_item sp foldersRes listsRes of
                      Inl e \<Rightarrow> (Inl [e], lg2)
                    | Inr v \<Rightarrow> (Inr v, lg2)))))"

text \<open>
  Mapping an \<^verbatim>\<open>async\<close> callback over the spaces starts every branch in turn; the requests
  of the branches enter the log in the order of the spaces.
\<close>

fun fan_out ::
  "(jsval \<Rightarrow> request list \<Rightarrow> 'r \<times> request list) \<Rightarrow> jsval list \<Rightarrow> request list
    \<Rightarrow> 'r list \<times> request list" where
  "fan_out f [] lg = ([], lg)"
| "fan_out f (x # xs) lg =
     (let (r, lg1) = f x lg;
          (rs, lg2) = fan_out f xs lg1
      in (r # rs, lg2))"

text \<open>
  The receiver of \<^verbatim>\<open>.map(async ...)\<close>: calling \<^verbatim>\<open>.map\<close> on anything but an array throws.
\<close>

fun elements :: "jsval \<Rightarrow> error + jsval list" where
  "elements (Arr xs) = Inr xs"
| "elements Undefined = Inl TypeError"
| "elements Null = Inl TypeError"
| "elements (Bool b) = Inl TypeError"
| "elements (Num n) = Inl TypeError"
| "elements NaN = Inl TypeError"
| "elements (Str s) = Inl TypeError"
| "elements (Obj ps) = Inl TypeError"

text \<open>
  \<^verbatim>\<open>hierarchy\<close> after its first \<^verbatim>\<open>await\<close>: the fan-out over the spaces, then the members,
  then the reply.
\<close>

definition hierarchy_tree ::
  "config \<Rightarrow> (int \<Rightarrow> string) \<Rightarrow> upstream \<Rightarrow> jsval \<Rightarrow> jsval \<Rightarrow> request list
    \<Rightarrow> (error list + jdoc option) \<times> request list" where
  "hierarchy_tree cfg String up teamInfo spacesRes lg =
     (case bindE (get spacesRes ''spaces'') (\<lambda>sps. elements (js_or sps (Arr []))) of
        Inl e \<Rightarrow> (Inl [e], lg)
      | Inr xs \<Rightarrow>
          (let (branches, lg1) = fan_out (space_branch cfg String up) xs lg
           in (case Promise_all branches of
                 Inl es \<Rightarrow> (Inl es, lg1)
               | Inr spaces \<Rightarrow>
                   (case members_of teamInfo of
                      Inl e \<Rightarrow> (Inl [e], lg1)
                    | Inr members \<Rightarrow>
                        (Inr (json (Obj [(''spaces'', Arr spaces), (''members'', members)])),
                         lg1)))))"

definition hierarchy ::
  "config \<Rightarrow> (int \<Rightarrow> string) \<Rightarrow> upstream \<Rightarrow> string option \<Rightarrow> request list
    \<Rightarrow> (error list + jdoc option) \<times> request list" where
  "hierarchy cfg String up team lg =
     (let teamId = js_or (str_arg team) (str_arg (DEFAULT_TEAM cfg)) in
      if \<not> truthy teamId then (Inl [team_required], lg)
      else
        let (p1, lg1) = api cfg up ''GET'' (''/team/'' @ to_string String teamId) None lg;
            (p2, lg2) =
              api cfg up ''GET'' (''/team/'' @ to_string String teamId @ ''/space?archived=false'') None lg1
        in (case Promise_all2 p1 p2 of
              Inl es \<Rightarrow> (Inl es, lg2)
            | Inr (teamInfo, spacesRes) \<Rightarrow> hierarchy_tree cfg String up teamInfo spacesRes lg2))"

subsection \<open>search\<close>

definition search ::
  "config \<Rightarrow> (jsval \<Rightarrow> jsval) \<Rightarrow> (int \<Rightarrow> string) \<Rightarrow> upstream \<Rightarrow> string \<Rightarrow> string option \<Rightarrow> int option
    \<Rightarrow> int option \<Rightarrow> int option \<Rightarrow> request list \<Rightarrow> (error + jdoc option) \<times> request list" where
  "search cfg Number String up q team assignee due_before due_after lg =
     (let teamId = js_or (str_arg team) (str_arg (DEFAULT_TEAM cfg)) in
      if \<not> truthy teamId then (Inl team_required, lg)
      else
        let params =
              [(''query'', q)]
              @ (if truthy (num_arg assignee)
                 then [(''assignees[]'', to_string String (num_arg assignee))] else [])
              @ (if truthy (num_arg due_before)
                 then [(''due_date_lt'', to_string String (num_arg due_before))] else [])
              @ (if truthy (num_arg due_after)
                 then [(''due_date_gt'', to_string String (num_arg due_after))] else []);
            (r, lg1) =
              api cfg up ''GET''
                (''/team/'' @ to_string String teamId @ ''/task?'' @ URLSearchParams_toString params)
                None lg
        in (bindE r (\<lambda>res.
            bindE (get res ''tasks'') (\<lambda>ts.
            bindE (slice0 20 (js_or ts (Arr []))) (\<lambda>sl.
            bindE (js_map (search_item Number) sl) (\<lambda>tasks.
            Inr (json tasks))))), lg1))"

subsection \<open>task\<close>

definition task ::
  "config \<Rightarrow> (jsval \<Rightarrow> jsval) \<Rightarrow> upstream \<Rightarrow> string \<Rightarrow> request list
    \<Rightarrow> (error + jdoc option) \<times> request list" where
  "task cfg Number up ident lg =
     (let (r, lg1) = api cfg up ''GET'' (''/task/'' @ ident) None lg
      in (bindE r (\<lambda>t.
          bindE (task_item Number t) (\<lambda>d.
          Inr (json d))), lg1))"

subsection \<open>update\<close>

text \<open>
  The body of \<^verbatim>\<open>update\<close>: an empty object, then one assignment for each argument that is
  not \<^verbatim>\<open>undefined\<close>.
\<close>

definition update_body ::
  "string option \<Rightarrow> string option \<Rightarrow> string option \<Rightarrow> int option \<Rightarrow> int option
    \<Rightarrow> (string \<times> jsval) list" where
  "update_body name desc status priority due =
     (case name of None \<Rightarrow> [] | Some v \<Rightarrow> [(''name'', Str v)])
     @ (case desc of None \<Rightarrow> [] | Some v \<Rightarrow> [(''description'', Str v)])
     @ (case status of None \<Rightarrow> [] | Some v \<Rightarrow> [(''status'', Str v)])
     @ (case priority of None \<Rightarrow> [] | Some v \<Rightarrow> [(''priority'', Num v)])
     @ (case due of None \<Rightarrow> [] | Some v \<Rightarrow> [(''due_date'', js_or (Num v) Null)])"

definition update ::
  "config \<Rightarrow> upstream \<Rightarrow> string \<Rightarrow> string option \<Rightarrow> string option \<Rightarrow> string option
    \<Rightarrow> int option \<Rightarrow> int option \<Rightarrow> request list \<Rightarrow> (error + jdoc option) \<times> request list" where
  "update cfg up ident name desc status priority due lg =
     (let body = Obj (update_body name desc status priority due);
          (r, lg1) = api cfg up ''PUT'' (''/task/'' @ ident) (Some body) lg
      in (bindE r (\<lambda>t.
          bindE (get t ''id'') (\<lambda>i.
          bindE (get t ''url'') (\<lambda>url.
          Inr (json (Obj [(''id'', i), (''url'', url)]))))), lg1))"

section \<open>Vocabulary of the properties\<close>

text \<open>The settled results of the requests \<open>rs\<close>, issued in turn after the log \<open>lg\<close>.\<close>

fun outcomes :: "upstream \<Rightarrow> request list \<Rightarrow> request list \<Rightarrow> (error + jsval) list" where
  "outcomes up lg [] = []"
| "outcomes up lg (r # rs) = api_response (up lg r) # outcomes up (lg @ [r]) rs"

text \<open>An optional string that is missing or empty: what \<^verbatim>\<open>||\<close> and \<^verbatim>\<open>!\<close> take as absent.\<close>

definition absent :: "string option \<Rightarrow> bool" where
  "absent a = (a = None \<or> a = Some [])"

text \<open>
  The team identifier \<open>t\<close> that an invocation resolves to: the caller's value when it is
  not absent, otherwise the configured default when that is not absent.
\<close>

definition resolves_to :: "config \<Rightarrow> string option \<Rightarrow> string \<Rightarrow> bool" where
  "resolves_to cfg team t =
     (t \<noteq> [] \<and> (team = Some t \<or> (absent team \<and> DEFAULT_TEAM cfg = Some t)))"

text \<open>The requests of \<^verbatim>\<open>hierarchy\<close>, by team and by space identifier.\<close>

definition team_request :: "config \<Rightarrow> string \<Rightarrow> request" where
  "team_request cfg t = api_request cfg ''GET'' (''/team/'' @ t) None"

definition spaces_request :: "config \<Rightarrow> string \<Rightarrow> request" where
  "spaces_request cfg t = api_request cfg ''GET'' (''/team/'' @ t @ ''/space?archived=false'') None"

definition folder_request :: "config \<Rightarrow> (int \<Rightarrow> string) \<Rightarrow> jsval \<Rightarrow> request" where
  "folder_request cfg String spid =
     api_request cfg ''GET'' (''/space/'' @ to_string String spid @ ''/folder?archived=false'') None"

text \<open>
  The query parameter of an optional numeric filter under the key \<open>k\<close>: none when the
  filter is left out or is 0, otherwise the one pair of the key and the printed number.
\<close>

definition filter_param ::
  "(int \<Rightarrow> string) \<Rightarrow> string \<Rightarrow> int option \<Rightarrow> (string \<times> string) list" where
  "filter_param String k a =
     (case a of None \<Rightarrow> [] | Some n \<Rightarrow> if n = 0 then [] else [(k, String n)])"

text \<open>An object without the property \<open>k\<close>.\<close>

definition lacks :: "jsval \<Rightarrow> string \<Rightarrow> bool" where
  "lacks v k = (case v of Obj ps \<Rightarrow> map_of ps k = None | _ \<Rightarrow> False)"

text \<open>An upstream task with no due date: the property is missing or \<^verbatim>\<open>null\<close>.\<close>

definition no_due_date :: "jsval \<Rightarrow> bool" where
  "no_due_date t =
     (case t of
        Obj ps \<Rightarrow> (case map_of ps ''due_date'' of None \<Rightarrow> True | Some v \<Rightarrow> v = Null)
      | _ \<Rightarrow> False)"

subsection \<open>Concrete inputs\<close>

definition cfg_w :: config where
  "cfg_w = \<lparr>TOKEN = ''pk_test'', DEFAULT_TEAM = Some ''9''\<rparr>"

text \<open>An upstream that answers every request with the same response.\<close>

definition respond :: "response \<Rightarrow> upstream" where
  "respond res lg req = Responded res"

text \<open>An upstream that answers by URL, and is unreachable for any other URL.\<close>

definition route :: "(string \<times> response) list \<Rightarrow> upstream" where
  "route tbl lg req =
     (case map_of tbl (req_url req) of None \<Rightarrow> Rejected | Some res \<Rightarrow> Responded res)"

definition ok_json :: "jsval \<Rightarrow> response" where
  "ok_json v = \<lparr>res_status = 200, res_text = ''(json)'', res_json = Some v\<rparr>"

text \<open>A team with one member, and upstreams serving it.\<close>

definition team_9 :: jsval where
  "team_9 = Obj [(''team'', Obj [(''id'', Str ''9''), (''members'',
      Arr [Obj [(''user'', Obj [(''id'', Num 7), (''username'', Str ''ann''),
                                 (''email'', Str ''ann@example.org'')])]])])]"

definition up_no_spaces :: upstream where
  "up_no_spaces =
     route [(API @ ''/team/9'', ok_json team_9),
            (API @ ''/team/9/space?archived=false'', ok_json (Obj [(''spaces'', Arr [])]))]"

definition space_1 :: jsval where
  "space_1 = Obj [(''id'', Str ''s1''), (''name'', Str ''One'')]"

definition space_2 :: jsval where
  "space_2 = Obj [(''id'', Str ''s2''), (''name'', Str ''Two'')]"

definition up_folder_fails :: upstream where
  "up_folder_fails =
     route [(API @ ''/team/9'', ok_json team_9),
            (API @ ''/team/9/space?archived=false'', ok_json (Obj [(''spaces'', Arr [space_1, space_2])])),
            (API @ ''/space/s1/folder?archived=false'', ok_json (Obj [(''folders'', Arr [])])),
            (API @ ''/space/s1/list?archived=false'', ok_json (Obj [(''lists'', Arr [])])),
            (API @ ''/space/s2/folder?archived=false'',
               \<lparr>res_status = 500, res_text = ''boom'', res_json = None\<rparr>),
            (API @ ''/space/s2/list?archived=false'', ok_json (Obj [(''lists'', Arr [])]))]"

definition up_tree :: upstream where
  "up_tree =
     route [(API @ ''/team/9'', ok_json team_9),
            (API @ ''/team/9/space?archived=false'', ok_json (Obj [(''spaces'', Arr [space_1])])),
            (API @ ''/space/s1/folder?archived=false'',
               ok_json (Obj [(''folders'',
                  Arr [Obj [(''id'', Str ''f1''), (''name'', Str ''F1''),
                            (''lists'', Arr [Obj [(''id'', Str ''l1''), (''name'', Str ''L1'')]])]])])),
            (API @ ''/space/s1/list?archived=false'',
               ok_json (Obj [(''lists'', Arr [Obj [(''id'', Str ''l2''), (''name'', Str ''L2'')]])]))]"

text \<open>Upstream tasks and folders, and upstreams serving them.\<close>

definition task_plain :: jsval where
  "task_plain = Obj [(''id'', Str ''t1''), (''name'', Str ''T1''), (''url'', Str ''https://app/t1'')]"

definition task_due :: jsval where
  "task_due = Obj [(''id'', Str ''t2''), (''name'', Str ''T2''), (''due_date'', Str ''17''),
                   (''url'', Str ''https://app/t2'')]"

definition tasks21 :: "jsval list" where
  "tasks21 = map (\<lambda>k. Obj [(''id'', Num k)])
               [1, 2, 3, 4, 5, 6, 7, 8, 9, 10, 11, 12, 13, 14, 15, 16, 17, 18, 19, 20, 21]"

definition up_21_tasks :: upstream where
  "up_21_tasks = respond (ok_json (Obj [(''tasks'', Arr tasks21)]))"

definition up_two_tasks :: upstream where
  "up_two_tasks = respond (ok_json (Obj [(''tasks'', Arr [task_plain, task_due])]))"

definition folder_plain :: jsval where
  "folder_plain = Obj [(''id'', Str ''f1''), (''name'', Str ''F1'')]"

text \<open>A stand-in for \<^verbatim>\<open>String\<close> on numbers: the decimal digits, right on the safe integers.\<close>

definition String_w :: "int \<Rightarrow> string" where
  "String_w n = (if n < 0 then CHR ''-'' # decimal (nat (- n)) else decimal (nat n))"

text \<open>A stand-in for \<^verbatim>\<open>Number\<close>, right on strings of decimal digits.\<close>

definition Number_w :: "jsval \<Rightarrow> jsval" where
  "Number_w v =
     (case v of
        Num n \<Rightarrow> Num n
      | Str s \<Rightarrow>
          if s \<noteq> [] \<and> list_all (\<lambda>c. c \<in> set ''0123456789'') s
          then Num (foldl (\<lambda>n c. 10 * n + (of_char c - 48)) 0 s)
          else NaN
      | _ \<Rightarrow> NaN)"

section \<open>Basic facts\<close>

lemma api_eq:
  "api cfg up m p b lg =
     (api_response (up lg (api_request cfg m p b)), lg @ [api_request cfg m p b])"
  by (simp add: api_def Let_def)

lemma bindE_Inl [simp]: "bindE (Inl e) f = Inl e"
  by (simp add: bindE_def)

lemma bindE_Inr [simp]: "bindE (Inr a) f = f a"
  by (simp add: bindE_def)

lemma bindE_eq_Inr: "bindE r f = Inr y \<longleftrightarrow> (\<exists>a. r = Inr a \<and> f a = Inr y)"
  by (cases r) simp_all

subsection \<open>Lists, documents and projections\<close>

lemma mapE_Inr_length: "mapE f xs = Inr ys \<Longrightarrow> length ys = length xs"
  by (induction xs arbitrary: ys) (auto split: sum.splits)

lemma mapE_Inr_nth: "mapE f xs = Inr ys \<Longrightarrow> i < length xs \<Longrightarrow> f (xs ! i) = Inr (ys ! i)"
proof (induction xs arbitrary: ys i)
  case Nil
  then show ?case by simp
next
  case (Cons x xs)
  then show ?case by (cases i) (auto split: sum.splits)
qed

lemma length_stringify_elems [simp]: "length (stringify_elems xs) = length xs"
  by (induction xs) simp_all

lemma nth_stringify_elems:
  "i < length xs \<Longrightarrow>
   stringify_elems xs ! i = (case stringify (xs ! i) of None \<Rightarrow> JNull | Some j \<Rightarrow> j)"
proof (induction xs arbitrary: i)
  case Nil
  then show ?case by simp
next
  case (Cons x xs)
  then show ?case by (cases i) simp_all
qed

lemma fst_stringify_props: "set (map fst (stringify_props ps)) \<subseteq> set (map fst ps)"
  by (induction ps) (auto split: option.splits)

lemma map_of_stringify_props:
  "distinct (map fst ps) \<Longrightarrow>
   map_of (stringify_props ps) k = (case map_of ps k of None \<Rightarrow> None | Some v \<Rightarrow> stringify v)"
proof (induction ps)
  case Nil
  then show ?case by simp
next
  case (Cons p ps)
  obtain a v where p: "p = (a, v)" by (cases p)
  have notin: "map_of (stringify_props ps) a = None"
    using Cons.prems fst_stringify_props [of ps] p
    by (auto simp: map_of_eq_None_iff)
  show ?case
  proof (cases "k = a")
    case True
    then show ?thesis using p notin by (simp split: option.splits)
  next
    case False
    then show ?thesis using p Cons by (simp split: option.splits)
  qed
qed

lemma no_due_date_get:
  "no_due_date t \<Longrightarrow> get t ''due_date'' = Inr Undefined \<or> get t ''due_date'' = Inr Null"
  by (cases t) (auto simp: no_due_date_def split: option.splits)

lemma search_item_due:
  assumes "search_item Number t = Inr v" and "no_due_date t"
  shows "\<exists>ps. stringify v = Some (JObj ps) \<and> map_of ps ''due'' = Some JNull"
proof -
  from assms(1) no_due_date_get [OF assms(2)] obtain i n st a u where
    v: "v = Obj [(''id'', i), (''name'', n), (''status'', st), (''assignees'', a),
                 (''due'', Null), (''url'', u)]"
    by (auto simp: search_item_def bindE_eq_Inr)
  show ?thesis unfolding v by (simp add: map_of_stringify_props del: stringify_props.simps)
qed

lemma task_item_due:
  assumes "task_item Number t = Inr v" and "no_due_date t"
  shows "\<exists>ps. stringify v = Some (JObj ps) \<and> map_of ps ''due'' = Some JNull"
proof -
  from assms(1) no_due_date_get [OF assms(2)] obtain i n de st pr tg a u where
    v: "v = Obj [(''id'', i), (''name'', n), (''desc'', de), (''status'', st), (''priority'', pr),
                 (''tags'', tg), (''assignees'', a), (''due'', Null), (''url'', u)]"
    by (auto simp: task_item_def bindE_eq_Inr)
  show ?thesis unfolding v by (simp add: map_of_stringify_props del: stringify_props.simps)
qed

lemma search_item_Obj: "search_item Number t = Inr v \<Longrightarrow> \<exists>ps. v = Obj ps"
  by (auto simp: search_item_def bindE_eq_Inr)

lemma search_Inr:
  assumes "search cfg Number String up q team a db da lg = (Inr out, lg')"
  shows "\<exists>req res tsv ts items.
           lg' = lg @ [req] \<and> api_response (up lg req) = Inr res \<and> get res ''tasks'' = Inr tsv
         \<and> js_or tsv (Arr []) = Arr ts
         \<and> mapE (search_item Number) (take 20 ts) = Inr items
         \<and> out = Some (JArr (stringify_elems items))"
proof -
  let ?teamId = "js_or (str_arg team) (str_arg (DEFAULT_TEAM cfg))"
  have tr: "truthy ?teamId" using assms by (auto simp: search_def Let_def split: if_splits)
  then obtain req where lg': "lg' = lg @ [req]"
    and out: "bindE (api_response (up lg req)) (\<lambda>res.
            bindE (get res ''tasks'') (\<lambda>ts.
            bindE (slice0 20 (js_or ts (Arr []))) (\<lambda>sl.
            bindE (js_map (search_item Number) sl) (\<lambda>tasks.
            Inr (json tasks))))) = Inr out"
    using assms by (auto simp: search_def api_eq Let_def)
  from out obtain res tsv sl tasks where
    res: "api_response (up lg req) = Inr res" and tsv: "get res ''tasks'' = Inr tsv"
    and sl: "slice0 20 (js_or tsv (Arr [])) = Inr sl" and m: "js_map (search_item Number) sl = Inr tasks"
    and o: "out = json tasks"
    by (auto simp: bindE_eq_Inr)
  from m obtain xs items where sl2: "sl = Arr xs" and it: "mapE (search_item Number) xs = Inr items"
    and tk: "tasks = Arr items"
    by (cases sl) (auto split: sum.splits)
  from sl sl2 obtain ts where ts: "js_or tsv (Arr []) = Arr ts" and xs: "xs = take 20 ts"
    by (cases "js_or tsv (Arr [])") auto
  show ?thesis using lg' res tsv ts it xs o tk by (auto simp: json_def)
qed

subsection \<open>Team resolution and the fan-out\<close>

lemma resolves_to_teamId:
  "resolves_to cfg team t \<Longrightarrow> js_or (str_arg team) (str_arg (DEFAULT_TEAM cfg)) = Str t"
  by (auto simp: resolves_to_def absent_def js_or_def str_arg_def)

lemma absent_teamId:
  "absent team \<Longrightarrow> absent (DEFAULT_TEAM cfg) \<Longrightarrow>
   \<not> truthy (js_or (str_arg team) (str_arg (DEFAULT_TEAM cfg)))"
  by (auto simp: absent_def js_or_def str_arg_def)

lemma resolution_cases:
  "(\<exists>t. resolves_to cfg team t) \<or> (absent team \<and> absent (DEFAULT_TEAM cfg))"
  by (cases team; cases "DEFAULT_TEAM cfg") (auto simp: resolves_to_def absent_def)

lemma outcomes_append:
  "outcomes up lg (xs @ ys) = outcomes up lg xs @ outcomes up (lg @ xs) ys"
  by (induction xs arbitrary: lg) simp_all

lemma space_branch_fail:
  assumes "space_branch cfg String up sp lg = (r, lg')"
  shows "\<exists>rs. lg' = lg @ rs
             \<and> ((\<exists>e. Inl e \<in> set (outcomes up lg rs)) \<longrightarrow> isl r)
             \<and> (\<forall>es. r = Inl es \<longrightarrow> es \<noteq> [])"
proof (cases "get sp ''id''")
  case (Inl e)
  with assms have "lg' = lg @ []" "r = Inl [e]" by (simp_all add: space_branch_def)
  then show ?thesis by (intro exI [of _ "[]"]) simp
next
  case (Inr spid)
  let ?r1 = "api_request cfg ''GET'' (''/space/'' @ to_string String spid @ ''/folder?archived=false'') None"
  let ?r2 = "api_request cfg ''GET'' (''/space/'' @ to_string String spid @ ''/list?archived=false'') None"
  from assms Inr have "lg' = lg @ [?r1, ?r2]"
    by (auto simp: space_branch_def api_eq split: sum.splits prod.splits)
  moreover from assms Inr have
    "(\<exists>e. Inl e \<in> set (outcomes up lg [?r1, ?r2])) \<longrightarrow> isl r"
    by (auto simp: space_branch_def api_eq Promise_all2_def split: sum.splits prod.splits)
  moreover from assms Inr have "\<forall>es. r = Inl es \<longrightarrow> es \<noteq> []"
    by (auto simp: space_branch_def api_eq Promise_all2_def split: sum.splits prod.splits)
  ultimately show ?thesis by blast
qed

lemma fan_out_fail:
  assumes "fan_out (space_branch cfg String up) xs lg = (bs, lg')"
  shows "\<exists>rs. lg' = lg @ rs
             \<and> ((\<exists>e. Inl e \<in> set (outcomes up lg rs)) \<longrightarrow> (\<exists>b \<in> set bs. isl b))
             \<and> (\<forall>b \<in> set bs. \<forall>es. b = Inl es \<longrightarrow> es \<noteq> [])"
  using assms
proof (induction xs arbitrary: lg bs lg')
  case Nil
  then show ?case by (intro exI [of _ "[]"]) simp
next
  case (Cons x xs)
  obtain r lg1 where b: "space_branch cfg String up x lg = (r, lg1)" by (cases "space_branch cfg String up x lg")
  obtain rs' lg2 where f: "fan_out (space_branch cfg String up) xs lg1 = (rs', lg2)"
    by (cases "fan_out (space_branch cfg String up) xs lg1")
  from Cons.prems b f have bs: "bs = r # rs'" and lg2: "lg' = lg2" by simp_all
  from space_branch_fail [OF b] obtain q1 where
    q1: "lg1 = lg @ q1" "(\<exists>e. Inl e \<in> set (outcomes up lg q1)) \<longrightarrow> isl r"
        "\<forall>es. r = Inl es \<longrightarrow> es \<noteq> []"
    by blast
  from Cons.IH [OF f] obtain q2 where
    q2: "lg2 = lg1 @ q2" "(\<exists>e. Inl e \<in> set (outcomes up lg1 q2)) \<longrightarrow> (\<exists>b \<in> set rs'. isl b)"
        "\<forall>b \<in> set rs'. \<forall>es. b = Inl es \<longrightarrow> es \<noteq> []"
    by blast
  show ?case
  proof (intro exI [of _ "q1 @ q2"] conjI)
    show "lg' = lg @ q1 @ q2" using lg2 q1(1) q2(1) by simp
    show "(\<exists>e. Inl e \<in> set (outcomes up lg (q1 @ q2))) \<longrightarrow> (\<exists>b \<in> set bs. isl b)"
      using q1(1,2) q2(2) bs by (auto simp: outcomes_append)
    show "\<forall>b \<in> set bs. \<forall>es. b = Inl es \<longrightarrow> es \<noteq> []"
      using q1(3) q2(3) bs by auto
  qed
qed

lemma Promise_all_isl: "isl (Promise_all bs) \<longleftrightarrow> (\<exists>b \<in> set bs. isl b)"
  by (induction bs) (auto split: sum.splits)

lemma Promise_all_reasons:
  "Promise_all bs = Inl es \<Longrightarrow> (\<forall>b \<in> set bs. \<forall>es. b = Inl es \<longrightarrow> es \<noteq> []) \<Longrightarrow> es \<noteq> []"
  by (induction bs arbitrary: es) (auto split: sum.splits)

lemma hierarchy_tree_fail:
  assumes "hierarchy_tree cfg String up teamInfo spacesRes lg = (r, lg')"
  shows "\<exists>rs. lg' = lg @ rs
             \<and> ((\<exists>e. Inl e \<in> set (outcomes up lg rs)) \<longrightarrow> isl r)
             \<and> (\<forall>es. r = Inl es \<longrightarrow> es \<noteq> [])"
proof (cases "bindE (get spacesRes ''spaces'') (\<lambda>sps. elements (js_or sps (Arr [])))")
  case (Inl e)
  with assms have "lg' = lg @ []" "r = Inl [e]" by (simp_all add: hierarchy_tree_def)
  then show ?thesis by (intro exI [of _ "[]"]) simp
next
  case (Inr xs)
  obtain bs lg1 where f: "fan_out (space_branch cfg String up) xs lg = (bs, lg1)"
    by (cases "fan_out (space_branch cfg String up) xs lg")
  from fan_out_fail [OF f] obtain q where
    q: "lg1 = lg @ q" "(\<exists>e. Inl e \<in> set (outcomes up lg q)) \<longrightarrow> (\<exists>b \<in> set bs. isl b)"
       "\<forall>b \<in> set bs. \<forall>es. b = Inl es \<longrightarrow> es \<noteq> []"
    by blast
  have lg': "lg' = lg @ q"
    using assms Inr f q(1) by (auto simp: hierarchy_tree_def split: sum.splits)
  have fails: "(\<exists>e. Inl e \<in> set (outcomes up lg q)) \<longrightarrow> isl r"
  proof
    assume "\<exists>e. Inl e \<in> set (outcomes up lg q)"
    with q(2) have "isl (Promise_all bs)" by (simp add: Promise_all_isl)
    then show "isl r" using assms Inr f by (auto simp: hierarchy_tree_def split: sum.splits)
  qed
  have ne: "\<forall>es. r = Inl es \<longrightarrow> es \<noteq> []"
    using assms Inr f Promise_all_reasons [OF _ q(3)]
    by (auto simp: hierarchy_tree_def split: sum.splits)
  show ?thesis using lg' fails ne by blast
qed

lemma hierarchy_fail:
  assumes "hierarchy cfg String up team lg = (r, lg')"
  shows "\<exists>rs. lg' = lg @ rs
             \<and> ((\<exists>e. Inl e \<in> set (outcomes up lg rs)) \<longrightarrow> isl r)
             \<and> (\<forall>es. r = Inl es \<longrightarrow> es \<noteq> [])"
proof (cases "truthy (js_or (str_arg team) (str_arg (DEFAULT_TEAM cfg)))")
  case False
  with assms have "lg' = lg @ []" "r = Inl [team_required]" by (simp_all add: hierarchy_def)
  then show ?thesis by (intro exI [of _ "[]"]) simp
next
  case True
  let ?t = "to_string String (js_or (str_arg team) (str_arg (DEFAULT_TEAM cfg)))"
  let ?r1 = "api_request cfg ''GET'' (''/team/'' @ ?t) None"
  let ?r2 = "api_request cfg ''GET'' (''/team/'' @ ?t @ ''/space?archived=false'') None"
  let ?p1 = "api_response (up lg ?r1)"
  let ?p2 = "api_response (up (lg @ [?r1]) ?r2)"
  let ?lg2 = "lg @ [?r1, ?r2]"
  have h: "hierarchy cfg String up team lg =
             (case Promise_all2 ?p1 ?p2 of
                Inl es \<Rightarrow> (Inl es, ?lg2)
              | Inr (teamInfo, spacesRes) \<Rightarrow> hierarchy_tree cfg String up teamInfo spacesRes ?lg2)"
    using True by (simp add: hierarchy_def api_eq Let_def split: sum.splits prod.splits)
  show ?thesis
  proof (cases "Promise_all2 ?p1 ?p2")
    case (Inl es)
    with assms h have "lg' = ?lg2" "r = Inl es" by simp_all
    moreover from Inl have "es \<noteq> []" by (auto simp: Promise_all2_def split: sum.splits)
    ultimately show ?thesis by (intro exI [of _ "[?r1, ?r2]"]) simp
  next
    case (Inr pr)
    obtain teamInfo spacesRes where pr: "pr = (teamInfo, spacesRes)" by (cases pr)
    from Inr pr have ok: "?p1 = Inr teamInfo" "?p2 = Inr spacesRes"
      by (auto simp: Promise_all2_def split: sum.splits)
    from assms h Inr pr have t: "hierarchy_tree cfg String up teamInfo spacesRes ?lg2 = (r, lg')"
      by simp
    from hierarchy_tree_fail [OF t] obtain q where
      q: "lg' = ?lg2 @ q" "(\<exists>e. Inl e \<in> set (outcomes up ?lg2 q)) \<longrightarrow> isl r"
         "\<forall>es. r = Inl es \<longrightarrow> es \<noteq> []"
      by blast
    have out: "outcomes up lg ([?r1, ?r2] @ q) = [Inr teamInfo, Inr spacesRes] @ outcomes up ?lg2 q"
      using ok unfolding outcomes_append by simp
    have "(\<exists>e. Inl e \<in> set (outcomes up lg ([?r1, ?r2] @ q))) \<longrightarrow> isl r"
      using q(2) unfolding out by auto
    then show ?thesis using q(1,3) by (intro exI [of _ "[?r1, ?r2] @ q"]) simp
  qed
qed

lemma hierarchy_resolved:
  assumes "resolves_to cfg team t"
  shows "hierarchy cfg String up team lg =
           (case Promise_all2 (api_response (up lg (team_request cfg t)))
                   (api_response (up (lg @ [team_request cfg t]) (spaces_request cfg t))) of
              Inl es \<Rightarrow> (Inl es, lg @ [team_request cfg t, spaces_request cfg t])
            | Inr (teamInfo, spacesRes) \<Rightarrow>
                hierarchy_tree cfg String up teamInfo spacesRes
                  (lg @ [team_request cfg t, spaces_request cfg t]))"
proof -
  have ne: "t \<noteq> []" using assms by (simp add: resolves_to_def)
  show ?thesis
    using ne
    by (simp add: hierarchy_def api_eq Let_def resolves_to_teamId [OF assms] team_request_def
          spaces_request_def split: sum.splits prod.splits)
qed

lemma hierarchy_tree_log:
  "\<exists>rs. snd (hierarchy_tree cfg String up teamInfo spacesRes lg) = lg @ rs"
  using hierarchy_tree_fail [of cfg String up teamInfo spacesRes lg]
  by (cases "hierarchy_tree cfg String up teamInfo spacesRes lg") auto

lemma space_branch_folder_fails:
  assumes "get sp ''id'' = Inr spid"
    and "\<forall>h. isl (api_response (up h (folder_request cfg String spid)))"
  shows "isl (fst (space_branch cfg String up sp lg))"
proof -
  from assms(2) obtain e where "api_response (up lg (folder_request cfg String spid)) = Inl e"
    by (cases "api_response (up lg (folder_request cfg String spid))") (auto dest: spec [of _ lg])
  then show ?thesis
    using assms(1)
    by (simp add: space_branch_def api_eq folder_request_def Promise_all2_def split: sum.splits)
qed

lemma fan_out_one_fails:
  "sp \<in> set xs \<Longrightarrow> (\<forall>lg. isl (fst (f sp lg))) \<Longrightarrow> \<exists>b \<in> set (fst (fan_out f xs lg)). isl b"
proof (induction xs arbitrary: lg)
  case Nil
  then show ?case by simp
next
  case (Cons x xs)
  show ?case
  proof (cases "sp = x")
    case True
    with Cons.prems(2) have "isl (fst (f x lg))" by simp
    then show ?thesis by (auto split: prod.splits)
  next
    case False
    with Cons.prems have m: "sp \<in> set xs" by simp
    obtain r lg1 where fx: "f x lg = (r, lg1)" by (cases "f x lg")
    from Cons.IH [OF m Cons.prems(2), of lg1] show ?thesis
      using fx by (auto split: prod.splits)
  qed
qed

lemma hierarchy_folder_fails:
  assumes "resolves_to cfg team t"
    and "api_response (up (lg @ [team_request cfg t]) (spaces_request cfg t)) = Inr spacesRes"
    and "get spacesRes ''spaces'' = Inr (Arr sps)"
    and "sp \<in> set sps"
    and "get sp ''id'' = Inr spid"
    and "\<forall>h. isl (api_response (up h (folder_request cfg String spid)))"
  shows "isl (fst (hierarchy cfg String up team lg))"
proof (cases "api_response (up lg (team_request cfg t))")
  case (Inl e)
  then show ?thesis
    using assms(2) by (simp add: hierarchy_resolved [OF assms(1)] Promise_all2_def)
next
  case (Inr teamInfo)
  let ?lg2 = "lg @ [team_request cfg t, spaces_request cfg t]"
  have h: "hierarchy cfg String up team lg = hierarchy_tree cfg String up teamInfo spacesRes ?lg2"
    using Inr assms(2) by (simp add: hierarchy_resolved [OF assms(1)] Promise_all2_def)
  have "\<forall>lg. isl (fst (space_branch cfg String up sp lg))"
    using space_branch_folder_fails [of sp spid up cfg String] assms(5,6) by simp
  with fan_out_one_fails [of sp sps "space_branch cfg String up" ?lg2] assms(4)
  have "isl (Promise_all (fst (fan_out (space_branch cfg String up) sps ?lg2)))"
    by (simp add: Promise_all_isl)
  then show ?thesis
    unfolding h using assms(3)
    by (auto simp: hierarchy_tree_def js_or_def split: sum.splits prod.splits)
qed

lemma opt_get_total: "\<exists>v. opt_get s k = Inr v"
  by (cases s) simp_all

lemma label_total: "\<exists>v. bindE (get (Obj ps) k) (\<lambda>s. opt_get s k') = Inr v"
  using opt_get_total by simp

lemma lacks_get: "lacks v k \<Longrightarrow> get v k = Inr Undefined"
  by (cases v) (simp_all add: lacks_def)

lemma lacks_Obj: "lacks v k \<Longrightarrow> \<exists>ps. v = Obj ps"
  by (cases v) (simp_all add: lacks_def)

lemma task_item_lacking:
  assumes "lacks t ''tags''" and "lacks t ''assignees''"
  shows "\<exists>v ps. task_item Number t = Inr v \<and> stringify v = Some (JObj ps)
               \<and> map_of ps ''tags'' = None \<and> map_of ps ''assignees'' = None"
proof -
  from lacks_Obj [OF assms(1)] obtain qs where t: "t = Obj qs" by blast
  obtain st where st: "bindE (get t ''status'') (\<lambda>s. opt_get s ''status'') = Inr st"
    using label_total t by blast
  obtain pr where pr: "bindE (get t ''priority'') (\<lambda>s. opt_get s ''priority'') = Inr pr"
    using label_total t by blast
  obtain i n de du u where g: "get t ''id'' = Inr i" "get t ''name'' = Inr n"
    "get t ''description'' = Inr de" "get t ''due_date'' = Inr du" "get t ''url'' = Inr u"
    using t by simp
  have "task_item Number t =
          Inr (Obj [(''id'', i), (''name'', n), (''desc'', de), (''status'', st),
               (''priority'', pr), (''tags'', Undefined), (''assignees'', Undefined),
               (''due'', if truthy du then Number du else Null),
               (''url'', u)])"
    unfolding task_item_def using st pr g lacks_get [OF assms(1)] lacks_get [OF assms(2)]
    by simp
  then show ?thesis
    by (simp add: map_of_stringify_props del: stringify_props.simps)
qed

lemma search_item_lacking:
  assumes "lacks t ''assignees''"
  shows "\<exists>v ps. search_item Number t = Inr v \<and> stringify v = Some (JObj ps)
               \<and> map_of ps ''assignees'' = None"
proof -
  from lacks_Obj [OF assms(1)] obtain qs where t: "t = Obj qs" by blast
  obtain st where st: "bindE (get t ''status'') (\<lambda>s. opt_get s ''status'') = Inr st"
    using label_total t by blast
  obtain i n du u where g: "get t ''id'' = Inr i" "get t ''name'' = Inr n"
    "get t ''due_date'' = Inr du" "get t ''url'' = Inr u"
    using t by simp
  have "search_item Number t =
          Inr (Obj [(''id'', i), (''name'', n), (''status'', st), (''assignees'', Undefined),
               (''due'', if truthy du then Number du else Null),
               (''url'', u)])"
    unfolding search_item_def using st g lacks_get [OF assms(1)]
    by simp
  then show ?thesis
    by (simp add: map_of_stringify_props del: stringify_props.simps)
qed

text \<open>The definitions unfolded to run a handler on a concrete input.\<close>

lemmas run_defs =
  api_eq api_request_def api_response_def ok_def respond_def route_def ok_json_def cfg_w_def
  js_or_def str_arg_def num_arg_def json_def API_def headers_def team_request_def
  spaces_request_def folder_request_def

text \<open>A whole run: one space holding a folder with a list, and a list of its own.\<close>

lemma hierarchy_example:
  "hierarchy cfg_w String_w up_tree None []
     = (Inr (Some (JObj
          [(''spaces'',
            JArr [JObj [(''id'', JStr ''s1''), (''name'', JStr ''One''),
                        (''folders'',
                         JArr [JObj [(''id'', JStr ''f1''), (''name'', JStr ''F1''),
                                     (''lists'', JArr [JObj [(''id'', JStr ''l1''),
                                                             (''name'', JStr ''L1'')]])]]),
                        (''lists'', JArr [JObj [(''id'', JStr ''l2''), (''name'', JStr ''L2'')]])]]),
           (''members'',
            JArr [JObj [(''id'', JNum 7), (''name'', JStr ''ann''),
                        (''email'', JStr ''ann@example.org'')]])])),
        [team_request cfg_w ''9'', spaces_request cfg_w ''9'', folder_request cfg_w String_w (Str ''s1''),
         api_request cfg_w ''GET'' ''/space/s1/list?archived=false'' None])"
  by (simp add: hierarchy_def hierarchy_tree_def space_branch_def up_tree_def team_9_def
        space_1_def space_item_def folder_item_def list_item_def members_of_def member_item_def
        Promise_all2_def run_defs)

section \<open>The HTTP client wrapper: status and body\<close>

text \<open>
  Claim C7, as the specification states it: a call fails if and only if the HTTP status
  is outside 200..299. It does not hold: a response with status 200 whose body is not
  JSON makes \<^verbatim>\<open>res.json()\<close> reject, so the call fails inside the successful range, with
  an error that carries neither the status nor the body.
\<close>

theorem api_success_status_fails_counterexample:
  "ok \<lparr>res_status = 200, res_text = ''<html>'', res_json = None\<rparr>
   \<and> fst (api cfg_w (respond \<lparr>res_status = 200, res_text = ''<html>'', res_json = None\<rparr>)
             ''GET'' ''/task/t1'' None [])
       = Inl SyntaxError"
  by (simp add: api_eq api_response_def ok_def respond_def)

text \<open>
  Claim C7, amended: for every call that \<^verbatim>\<open>fetch\<close> answers with a response, the call fails
  with an \<^verbatim>\<open>Error\<close> if and only if the status is outside 200..299, and then the message
  is the decimal status, a colon and a space, and the raw body text. Status 204 yields the
  empty object. Any other status in 200..299 yields the parsed body when the body is JSON,
  and a parse failure otherwise.
\<close>

theorem api_outcome:
  assumes "up lg (api_request cfg m p b) = Responded res"
  shows "((\<exists>msg. fst (api cfg up m p b lg) = Inl (Error msg))
            \<longleftrightarrow> \<not> (200 \<le> res_status res \<and> res_status res \<le> 299))
       \<and> (\<not> (200 \<le> res_status res \<and> res_status res \<le> 299) \<longrightarrow>
            fst (api cfg up m p b lg)
              = Inl (Error (decimal (res_status res) @ '': '' @ res_text res)))
       \<and> (res_status res = 204 \<longrightarrow> fst (api cfg up m p b lg) = Inr (Obj []))
       \<and> (200 \<le> res_status res \<and> res_status res \<le> 299 \<and> res_status res \<noteq> 204 \<longrightarrow>
            fst (api cfg up m p b lg)
              = (case res_json res of None \<Rightarrow> Inl SyntaxError | Some v \<Rightarrow> Inr v))"
  using assms by (auto simp: api_eq api_response_def ok_def split: option.splits)

theorem api_outcome_witness:
  "respond \<lparr>res_status = 404, res_text = ''not found'', res_json = None\<rparr> []
      (api_request cfg_w ''DELETE'' ''/task/x'' None)
     = Responded \<lparr>res_status = 404, res_text = ''not found'', res_json = None\<rparr>
   \<and> fst (api cfg_w (respond \<lparr>res_status = 404, res_text = ''not found'', res_json = None\<rparr>)
             ''DELETE'' ''/task/x'' None [])
       = Inl (Error ''404: not found'')
   \<and> fst (api cfg_w (respond \<lparr>res_status = 204, res_text = [], res_json = None\<rparr>)
             ''DELETE'' ''/task/x'' None [])
       = Inr (Obj [])
   \<and> fst (api cfg_w (respond (ok_json (Obj [(''id'', Str ''x'')]))) ''GET'' ''/task/x'' None [])
       = Inr (Obj [(''id'', Str ''x'')])"
proof -
  let ?r404 = "\<lparr>res_status = 404, res_text = ''not found'', res_json = None\<rparr>"
  let ?r204 = "\<lparr>res_status = 204, res_text = [], res_json = None\<rparr>"
  let ?r200 = "ok_json (Obj [(''id'', Str ''x'')])"
  have h404: "respond ?r404 [] (api_request cfg_w ''DELETE'' ''/task/x'' None) = Responded ?r404"
    by (simp add: respond_def)
  have h204: "respond ?r204 [] (api_request cfg_w ''DELETE'' ''/task/x'' None) = Responded ?r204"
    by (simp add: respond_def)
  have h200: "respond ?r200 [] (api_request cfg_w ''GET'' ''/task/x'' None) = Responded ?r200"
    by (simp add: respond_def)
  have d: "decimal 404 = ''404''"
    by (simp add: decimal.simps digit_def)
  show ?thesis
    using h404 h204 h200 d
      api_outcome [of "respond ?r404" "[]" cfg_w "''DELETE''" "''/task/x''" None ?r404]
      api_outcome [of "respond ?r204" "[]" cfg_w "''DELETE''" "''/task/x''" None ?r204]
      api_outcome [of "respond ?r200" "[]" cfg_w "''GET''" "''/task/x''" None ?r200]
    by (simp add: ok_json_def)
qed

section \<open>Resolution of the team identifier\<close>

text \<open>
  Claim C4, as the specification states it: the caller-supplied team takes precedence over
  the default. It does not hold for a caller who supplies the empty string: \<^verbatim>\<open>team ||
  DEFAULT_TEAM\<close> takes the empty string as absent, and the requests go to the default team.
\<close>

theorem empty_team_uses_default_counterexample:
  "DEFAULT_TEAM cfg_w = Some ''9''
   \<and> snd (hierarchy cfg_w String_w up_no_spaces (Some '''') [])
       = [team_request cfg_w ''9'', spaces_request cfg_w ''9'']"
  by (simp add: hierarchy_def hierarchy_tree_def up_no_spaces_def team_9_def Promise_all2_def
        members_of_def member_item_def run_defs)

text \<open>
  Claim C4, amended: in \<^verbatim>\<open>hierarchy\<close> and \<^verbatim>\<open>search\<close>, a caller-supplied team that is not
  the empty string takes precedence over the configured default; a missing or empty team
  falls back to a non-empty default; the requests are addressed to the team so resolved.
  When both are missing or empty the invocation fails with the error
  \<^verbatim>\<open>team required (or set CLICKUP_TEAM_ID)\<close> (the specification's ConfigurationError) and
  issues no request.
\<close>

theorem team_resolution:
  "(resolves_to cfg team t \<longrightarrow>
      (\<exists>rest. snd (hierarchy cfg String up team lg)
                 = lg @ team_request cfg t # spaces_request cfg t # rest)
    \<and> (\<exists>qs. snd (search cfg Number String up q team a db da lg)
               = lg @ [api_request cfg ''GET'' (''/team/'' @ t @ ''/task?'' @ qs) None]))
   \<and> (absent team \<and> absent (DEFAULT_TEAM cfg) \<longrightarrow>
        hierarchy cfg String up team lg = (Inl [team_required], lg)
      \<and> search cfg Number String up q team a db da lg = (Inl team_required, lg))"
proof (intro conjI impI)
  assume r: "resolves_to cfg team t"
  show "\<exists>rest. snd (hierarchy cfg String up team lg)
                 = lg @ team_request cfg t # spaces_request cfg t # rest"
  proof (cases "Promise_all2 (api_response (up lg (team_request cfg t)))
                   (api_response (up (lg @ [team_request cfg t]) (spaces_request cfg t)))")
    case (Inl es)
    then show ?thesis by (simp add: hierarchy_resolved [OF r])
  next
    case (Inr pr)
    obtain teamInfo spacesRes where pr: "pr = (teamInfo, spacesRes)" by (cases pr)
    from hierarchy_tree_log [of cfg String up teamInfo spacesRes "lg @ [team_request cfg t, spaces_request cfg t]"]
    show ?thesis using Inr pr by (auto simp: hierarchy_resolved [OF r])
  qed
  show "\<exists>qs. snd (search cfg Number String up q team a db da lg)
               = lg @ [api_request cfg ''GET'' (''/team/'' @ t @ ''/task?'' @ qs) None]"
    using r by (auto simp: search_def Let_def api_eq resolves_to_teamId [OF r] resolves_to_def)
next
  assume a: "absent team \<and> absent (DEFAULT_TEAM cfg)"
  then show "hierarchy cfg String up team lg = (Inl [team_required], lg)"
    by (simp add: hierarchy_def absent_teamId)
  from a show "search cfg Number String up q team a db da lg = (Inl team_required, lg)"
    by (simp add: search_def absent_teamId)
qed

theorem team_resolution_witness:
  "resolves_to cfg_w (Some ''8'') ''8'' \<and> resolves_to cfg_w None ''9''
   \<and> snd (hierarchy cfg_w String_w up_no_spaces (Some ''8'') [])
       = [team_request cfg_w ''8'', spaces_request cfg_w ''8'']
   \<and> snd (search cfg_w Number_w String_w up_two_tasks ''bug'' None None None None [])
       = [api_request cfg_w ''GET'' ''/team/9/task?query=bug'' None]
   \<and> hierarchy (cfg_w\<lparr>DEFAULT_TEAM := None\<rparr>) String_w up_no_spaces (Some '''') []
       = (Inl [Error ''team required (or set CLICKUP_TEAM_ID)''], [])
   \<and> search (cfg_w\<lparr>DEFAULT_TEAM := None\<rparr>) Number_w String_w up_two_tasks ''bug'' None None None None []
       = (Inl (Error ''team required (or set CLICKUP_TEAM_ID)''), [])"
proof -
  have r8: "resolves_to cfg_w (Some ''8'') ''8''"
    by (simp add: resolves_to_def)
  have r9: "resolves_to cfg_w None ''9''"
    by (simp add: resolves_to_def absent_def cfg_w_def)
  have ab: "absent (Some '''') \<and> absent (DEFAULT_TEAM (cfg_w\<lparr>DEFAULT_TEAM := None\<rparr>))"
    by (simp add: absent_def)
  have a: "snd (hierarchy cfg_w String_w up_no_spaces (Some ''8'') [])
       = [team_request cfg_w ''8'', spaces_request cfg_w ''8'']"
    by (simp add: hierarchy_def hierarchy_tree_def up_no_spaces_def Promise_all2_def run_defs)
  have b: "snd (search cfg_w Number_w String_w up_two_tasks ''bug'' None None None None [])
       = [api_request cfg_w ''GET'' ''/team/9/task?query=bug'' None]"
    by (simp add: search_def urlencode_def urlencode_byte_def unreserved_def run_defs)
  from team_resolution [where cfg = "cfg_w\<lparr>DEFAULT_TEAM := None\<rparr>" and team = "Some ''''"
         and String = String_w and up = up_no_spaces and lg = "[]"] ab
  have c: "hierarchy (cfg_w\<lparr>DEFAULT_TEAM := None\<rparr>) String_w up_no_spaces (Some '''') []
             = (Inl [team_required], [])"
    by simp
  have ab': "absent None \<and> absent (DEFAULT_TEAM (cfg_w\<lparr>DEFAULT_TEAM := None\<rparr>))"
    by (simp add: absent_def)
  from team_resolution [where cfg = "cfg_w\<lparr>DEFAULT_TEAM := None\<rparr>" and team = None
         and String = String_w and up = up_two_tasks and lg = "[]" and Number = Number_w and q = "''bug''"
         and a = None and db = None and da = None] ab'
  have c': "search (cfg_w\<lparr>DEFAULT_TEAM := None\<rparr>) Number_w String_w up_two_tasks ''bug'' None None None None []
             = (Inl team_required, [])"
    by simp
  from team_resolution [where cfg = cfg_w and team = "Some ''8''" and t = "''8''"
         and String = String_w and up = up_no_spaces and lg = "[]"] r8
  have d: "\<exists>rest. snd (hierarchy cfg_w String_w up_no_spaces (Some ''8'') [])
                 = [] @ team_request cfg_w ''8'' # spaces_request cfg_w ''8'' # rest"
    by simp
  show ?thesis using r8 r9 a b c c' d by (simp add: team_required_def)
qed

section \<open>hierarchy: all or nothing\<close>

text \<open>
  Claim C1: if any request issued by a \<^verbatim>\<open>hierarchy\<close> invocation fails (the team-detail
  fetch, the spaces fetch, or a folder or list fetch of a space), the invocation fails: it
  rejects with a reason, and returns no result. In particular, when the folder fetch of
  one of the spaces that the spaces fetch returned fails, the invocation fails.
\<close>

theorem hierarchy_all_or_nothing:
  "(hierarchy cfg String up team lg = (r, lg')
      \<and> Inl e \<in> set (outcomes up lg (drop (length lg) lg'))
      \<longrightarrow> (\<exists>es. r = Inl es \<and> es \<noteq> []))
   \<and> (resolves_to cfg team t
      \<and> api_response (up (lg @ [team_request cfg t]) (spaces_request cfg t)) = Inr spacesRes
      \<and> get spacesRes ''spaces'' = Inr (Arr sps)
      \<and> sp \<in> set sps \<and> get sp ''id'' = Inr spid
      \<and> (\<forall>h. isl (api_response (up h (folder_request cfg String spid))))
      \<longrightarrow> isl (fst (hierarchy cfg String up team lg)))"
proof (intro conjI impI)
  assume a: "hierarchy cfg String up team lg = (r, lg')
      \<and> Inl e \<in> set (outcomes up lg (drop (length lg) lg'))"
  then have h: "hierarchy cfg String up team lg = (r, lg')" by simp
  from hierarchy_fail [OF h] obtain rs where
    rs: "lg' = lg @ rs" "(\<exists>e. Inl e \<in> set (outcomes up lg rs)) \<longrightarrow> isl r"
        "\<forall>es. r = Inl es \<longrightarrow> es \<noteq> []"
    by blast
  from a rs(1) have "Inl e \<in> set (outcomes up lg rs)" by simp
  with rs(2) have "isl r" by blast
  then obtain es where "r = Inl es" by (cases r) auto
  with rs(3) show "\<exists>es. r = Inl es \<and> es \<noteq> []" by blast
next
  assume "resolves_to cfg team t
      \<and> api_response (up (lg @ [team_request cfg t]) (spaces_request cfg t)) = Inr spacesRes
      \<and> get spacesRes ''spaces'' = Inr (Arr sps)
      \<and> sp \<in> set sps \<and> get sp ''id'' = Inr spid
      \<and> (\<forall>h. isl (api_response (up h (folder_request cfg String spid))))"
  then show "isl (fst (hierarchy cfg String up team lg))"
    using hierarchy_folder_fails by blast
qed

theorem hierarchy_all_or_nothing_witness:
  "hierarchy cfg_w String_w up_folder_fails None []
     = (Inl [Error ''500: boom''],
        [team_request cfg_w ''9'', spaces_request cfg_w ''9'',
         folder_request cfg_w String_w (Str ''s1''),
         api_request cfg_w ''GET'' ''/space/s1/list?archived=false'' None,
         folder_request cfg_w String_w (Str ''s2''),
         api_request cfg_w ''GET'' ''/space/s2/list?archived=false'' None])
   \<and> (\<forall>h. isl (api_response (up_folder_fails h (folder_request cfg_w String_w (Str ''s2'')))))
   \<and> isl (fst (hierarchy cfg_w String_w up_folder_fails None []))"
proof -
  let ?lg = "[team_request cfg_w ''9'', spaces_request cfg_w ''9'',
         folder_request cfg_w String_w (Str ''s1''),
         api_request cfg_w ''GET'' ''/space/s1/list?archived=false'' None,
         folder_request cfg_w String_w (Str ''s2''),
         api_request cfg_w ''GET'' ''/space/s2/list?archived=false'' None]"
  have h: "hierarchy cfg_w String_w up_folder_fails None [] = (Inl [Error ''500: boom''], ?lg)"
    by (simp add: hierarchy_def hierarchy_tree_def space_branch_def up_folder_fails_def
          space_1_def space_2_def space_item_def folder_item_def list_item_def
          Promise_all2_def decimal.simps digit_def run_defs)
  have o: "Inl (Error ''500: boom'') \<in> set (outcomes up_folder_fails [] (drop (length ([] :: request list)) ?lg))"
    by (simp add: up_folder_fails_def decimal.simps digit_def run_defs)
  have r: "resolves_to cfg_w None ''9''"
    by (simp add: resolves_to_def absent_def cfg_w_def)
  have s: "api_response (up_folder_fails ([] @ [team_request cfg_w ''9'']) (spaces_request cfg_w ''9''))
             = Inr (Obj [(''spaces'', Arr [space_1, space_2])])"
    by (simp add: up_folder_fails_def run_defs)
  have f: "\<forall>h. isl (api_response (up_folder_fails h (folder_request cfg_w String_w (Str ''s2''))))"
    by (simp add: up_folder_fails_def run_defs)
  note inst = hierarchy_all_or_nothing
    [where cfg = cfg_w and String = String_w and up = up_folder_fails and team = None and lg = "[]"
       and r = "Inl [Error ''500: boom'']" and lg' = ?lg and e = "Error ''500: boom''"
       and t = "''9''" and spacesRes = "Obj [(''spaces'', Arr [space_1, space_2])]"
       and sps = "[space_1, space_2]" and sp = space_2 and spid = "Str ''s2''"]
  from inst h o r s f have "isl (fst (hierarchy cfg_w String_w up_folder_fails None []))"
    by (simp add: space_2_def)
  with h f show ?thesis by simp
qed

section \<open>hierarchy: zero spaces\<close>

text \<open>
  Claim C8: for a team whose spaces response holds zero spaces, and whose team-detail
  response shapes to the members \<open>ms\<close>, \<^verbatim>\<open>hierarchy\<close> succeeds after its two requests and
  returns the object with an empty \<^verbatim>\<open>spaces\<close> array and the members \<open>ms\<close>.
\<close>

theorem hierarchy_zero_spaces:
  assumes "resolves_to cfg team t"
    and "api_response (up lg (team_request cfg t)) = Inr teamInfo"
    and "api_response (up (lg @ [team_request cfg t]) (spaces_request cfg t)) = Inr spacesRes"
    and "get spacesRes ''spaces'' = Inr (Arr [])"
    and "members_of teamInfo = Inr (Arr ms)"
  shows "hierarchy cfg String up team lg =
           (Inr (Some (JObj [(''spaces'', JArr []), (''members'', JArr (stringify_elems ms))])),
            lg @ [team_request cfg t, spaces_request cfg t])"
  using assms(2-5)
  by (simp add: hierarchy_resolved [OF assms(1)] Promise_all2_def hierarchy_tree_def js_or_def
        json_def)

theorem hierarchy_zero_spaces_witness:
  "hierarchy cfg_w String_w up_no_spaces None []
     = (Inr (Some (JObj [(''spaces'', JArr []),
                         (''members'', JArr [JObj [(''id'', JNum 7), (''name'', JStr ''ann''),
                                                   (''email'', JStr ''ann@example.org'')]])])),
        [team_request cfg_w ''9'', spaces_request cfg_w ''9''])"
proof -
  have r: "resolves_to cfg_w None ''9''"
    by (simp add: resolves_to_def absent_def cfg_w_def)
  have t: "api_response (up_no_spaces [] (team_request cfg_w ''9'')) = Inr team_9"
    by (simp add: up_no_spaces_def run_defs)
  have s: "api_response (up_no_spaces ([] @ [team_request cfg_w ''9'']) (spaces_request cfg_w ''9''))
             = Inr (Obj [(''spaces'', Arr [])])"
    by (simp add: up_no_spaces_def run_defs)
  have g: "get (Obj [(''spaces'', Arr [])]) ''spaces'' = Inr (Arr [])"
    by simp
  have m: "members_of team_9
             = Inr (Arr [Obj [(''id'', Num 7), (''name'', Str ''ann''),
                              (''email'', Str ''ann@example.org'')]])"
    by (simp add: members_of_def member_item_def team_9_def js_or_def)
  from hierarchy_zero_spaces [OF r t s g m] show ?thesis by simp
qed

section \<open>search: the 20-task limit\<close>

text \<open>
  Claim C2: whenever \<^verbatim>\<open>search\<close> returns, whatever the upstream answered, its result is an
  array of at most 20 tasks, and they are the projections of the first 20 tasks of the
  upstream list, in order.
\<close>

theorem search_returns_at_most_20:
  assumes "search cfg Number String up q team a db da lg = (Inr out, lg')"
  shows "\<exists>req res tsv ts items.
           lg' = lg @ [req] \<and> api_response (up lg req) = Inr res
         \<and> get res ''tasks'' = Inr tsv \<and> js_or tsv (Arr []) = Arr ts
         \<and> out = Some (JArr items)
         \<and> length items = min 20 (length ts) \<and> length items \<le> 20
         \<and> (\<forall>i < length items.
               \<exists>v. search_item Number (ts ! i) = Inr v \<and> stringify v = Some (items ! i))"
proof -
  from search_Inr [OF assms] obtain req res tsv ts vs where
    lg': "lg' = lg @ [req]" and res: "api_response (up lg req) = Inr res"
    and tsv: "get res ''tasks'' = Inr tsv" and ts: "js_or tsv (Arr []) = Arr ts"
    and m: "mapE (search_item Number) (take 20 ts) = Inr vs"
    and out: "out = Some (JArr (stringify_elems vs))"
    by blast
  have len: "length vs = min 20 (length ts)"
    using mapE_Inr_length [OF m] by (simp add: min.commute)
  have each: "\<exists>v. search_item Number (ts ! i) = Inr v \<and> stringify v = Some (stringify_elems vs ! i)"
    if "i < length vs" for i
  proof -
    have i: "i < length (take 20 ts)" using that mapE_Inr_length [OF m] by simp
    have f: "search_item Number (ts ! i) = Inr (vs ! i)"
      using mapE_Inr_nth [OF m i] i by simp
    from search_item_Obj [OF f] obtain ps where "vs ! i = Obj ps" by blast
    then have "stringify (vs ! i) = Some (stringify_elems vs ! i)"
      using that by (simp add: nth_stringify_elems)
    with f show ?thesis by blast
  qed
  show ?thesis
    using lg' res tsv ts out len each by (intro exI [of _ req] exI [of _ res] exI [of _ tsv] exI [of _ ts] exI [of _ "stringify_elems vs"]) simp
qed

theorem search_returns_at_most_20_witness:
  "\<exists>items. fst (search cfg_w Number_w String_w up_21_tasks ''bug'' None None None None [])
              = Inr (Some (JArr items))
          \<and> length items = 20 \<and> length tasks21 = 21"
proof -
  have h: "search cfg_w Number_w String_w up_21_tasks ''bug'' None None None None []
             = (Inr (Some (JArr (map (\<lambda>k. JObj [(''id'', JNum k), (''due'', JNull)])
                   [1, 2, 3, 4, 5, 6, 7, 8, 9, 10, 11, 12, 13, 14, 15, 16, 17, 18, 19, 20]))),
                [api_request cfg_w ''GET'' ''/team/9/task?query=bug'' None])"
    by (simp add: search_def search_item_def up_21_tasks_def tasks21_def urlencode_def
          urlencode_byte_def unreserved_def run_defs)
  from search_returns_at_most_20 [OF h] have "length tasks21 = 21"
    by (simp add: tasks21_def)
  with h show ?thesis
    by simp
qed

section \<open>search: filters with the value 0\<close>

text \<open>
  Claim C10: a \<^verbatim>\<open>search\<close> whose assignee, due_before or due_after argument is 0 issues its
  one request with that filter left out of the query string: the query string is that of
  the query and of the other filters alone, and with all three filters 0 it is that of the
  query alone. The request, and with it the result, is the one of the same search with
  the argument not supplied.
\<close>

theorem search_zero_filter_is_omitted:
  "(resolves_to cfg team t \<longrightarrow>
      snd (search cfg Number String up q team (Some 0) due_before due_after lg)
        = lg @ [api_request cfg ''GET''
                  (''/team/'' @ t @ ''/task?'' @
                   URLSearchParams_toString
                     ((''query'', q) # filter_param String ''due_date_lt'' due_before
                        @ filter_param String ''due_date_gt'' due_after)) None]
    \<and> snd (search cfg Number String up q team assignee (Some 0) due_after lg)
        = lg @ [api_request cfg ''GET''
                  (''/team/'' @ t @ ''/task?'' @
                   URLSearchParams_toString
                     ((''query'', q) # filter_param String ''assignees[]'' assignee
                        @ filter_param String ''due_date_gt'' due_after)) None]
    \<and> snd (search cfg Number String up q team assignee due_before (Some 0) lg)
        = lg @ [api_request cfg ''GET''
                  (''/team/'' @ t @ ''/task?'' @
                   URLSearchParams_toString
                     ((''query'', q) # filter_param String ''assignees[]'' assignee
                        @ filter_param String ''due_date_lt'' due_before)) None]
    \<and> snd (search cfg Number String up q team (Some 0) (Some 0) (Some 0) lg)
        = lg @ [api_request cfg ''GET''
                  (''/team/'' @ t @ ''/task?'' @ URLSearchParams_toString [(''query'', q)]) None])
   \<and> search cfg Number String up q team (Some 0) due_before due_after lg
     = search cfg Number String up q team None due_before due_after lg
   \<and> search cfg Number String up q team assignee (Some 0) due_after lg
     = search cfg Number String up q team assignee None due_after lg
   \<and> search cfg Number String up q team assignee due_before (Some 0) lg
     = search cfg Number String up q team assignee due_before None lg"
proof (intro conjI impI)
  assume r: "resolves_to cfg team t"
  then have ne: "t \<noteq> []" by (simp add: resolves_to_def)
  note unfold = search_def Let_def api_eq resolves_to_teamId [OF r] filter_param_def num_arg_def
  show "snd (search cfg Number String up q team (Some 0) due_before due_after lg)
        = lg @ [api_request cfg ''GET''
                  (''/team/'' @ t @ ''/task?'' @
                   URLSearchParams_toString
                     ((''query'', q) # filter_param String ''due_date_lt'' due_before
                        @ filter_param String ''due_date_gt'' due_after)) None]"
    using ne by (cases due_before; cases due_after) (simp_all add: unfold)
  show "snd (search cfg Number String up q team assignee (Some 0) due_after lg)
        = lg @ [api_request cfg ''GET''
                  (''/team/'' @ t @ ''/task?'' @
                   URLSearchParams_toString
                     ((''query'', q) # filter_param String ''assignees[]'' assignee
                        @ filter_param String ''due_date_gt'' due_after)) None]"
    using ne by (cases assignee; cases due_after) (simp_all add: unfold)
  show "snd (search cfg Number String up q team assignee due_before (Some 0) lg)
        = lg @ [api_request cfg ''GET''
                  (''/team/'' @ t @ ''/task?'' @
                   URLSearchParams_toString
                     ((''query'', q) # filter_param String ''assignees[]'' assignee
                        @ filter_param String ''due_date_lt'' due_before)) None]"
    using ne by (cases assignee; cases due_before) (simp_all add: unfold)
  show "snd (search cfg Number String up q team (Some 0) (Some 0) (Some 0) lg)
        = lg @ [api_request cfg ''GET''
                  (''/team/'' @ t @ ''/task?'' @ URLSearchParams_toString [(''query'', q)]) None]"
    using ne by (simp add: unfold)
next
  show "search cfg Number String up q team (Some 0) due_before due_after lg
     = search cfg Number String up q team None due_before due_after lg"
    by (simp add: search_def num_arg_def)
  show "search cfg Number String up q team assignee (Some 0) due_after lg
     = search cfg Number String up q team assignee None due_after lg"
    by (simp add: search_def num_arg_def)
  show "search cfg Number String up q team assignee due_before (Some 0) lg
     = search cfg Number String up q team assignee due_before None lg"
    by (simp add: search_def num_arg_def)
qed

theorem search_zero_filter_is_omitted_witness:
  "resolves_to cfg_w None ''9''
   \<and> snd (search cfg_w Number_w String_w up_two_tasks ''bug'' None (Some 0) None (Some 5) [])
       = [api_request cfg_w ''GET'' ''/team/9/task?query=bug&due_date_gt=5'' None]
   \<and> snd (search cfg_w Number_w String_w up_two_tasks ''bug'' None (Some 7) (Some 0) None [])
       = [api_request cfg_w ''GET'' ''/team/9/task?query=bug&assignees%5B%5D=7'' None]
   \<and> snd (search cfg_w Number_w String_w up_two_tasks ''bug'' None (Some 0) (Some 0) (Some 0) [])
       = [api_request cfg_w ''GET'' ''/team/9/task?query=bug'' None]"
proof -
  have r: "resolves_to cfg_w None ''9''"
    by (simp add: resolves_to_def absent_def cfg_w_def)
  note inst = search_zero_filter_is_omitted
    [where cfg = cfg_w and team = None and t = "''9''" and Number = Number_w
       and String = String_w and up = up_two_tasks and q = "''bug''" and lg = "[]"]
  note a = inst [where due_before = None and due_after = "Some 5" and assignee = "Some 7",
                 THEN conjunct1, rule_format, OF r]
  note b = inst [where due_before = None and due_after = None and assignee = "Some 7",
                 THEN conjunct1, rule_format, OF r]
  from a b r show ?thesis
    by (simp add: filter_param_def String_w_def decimal.simps digit_def urlencode_def
          urlencode_byte_def unreserved_def hex_digit_def)
qed

section \<open>The due field of a task without due date\<close>

text \<open>
  Claim C3: when the upstream task has no due date (the property is missing or
  \<^verbatim>\<open>null\<close>), the task that \<^verbatim>\<open>task\<close> returns, and the task that \<^verbatim>\<open>search\<close> returns for it,
  has a \<^verbatim>\<open>due\<close> field, and its value is \<^verbatim>\<open>null\<close>.
\<close>

theorem due_is_null_when_unset:
  "(task cfg Number up ident lg = (Inr out, lg')
      \<and> api_response (up lg (api_request cfg ''GET'' (''/task/'' @ ident) None)) = Inr t
      \<and> no_due_date t
      \<longrightarrow> (\<exists>ps. out = Some (JObj ps) \<and> map_of ps ''due'' = Some JNull))
   \<and> (search cfg Number String up q team a db da lg = (Inr out', lg @ [req])
      \<and> api_response (up lg req) = Inr res \<and> get res ''tasks'' = Inr (Arr ts)
      \<and> i < length ts \<and> i < 20 \<and> no_due_date (ts ! i)
      \<longrightarrow> (\<exists>items ps. out' = Some (JArr items) \<and> i < length items
             \<and> items ! i = JObj ps \<and> map_of ps ''due'' = Some JNull))"
proof (intro conjI impI)
  assume a: "task cfg Number up ident lg = (Inr out, lg')
      \<and> api_response (up lg (api_request cfg ''GET'' (''/task/'' @ ident) None)) = Inr t
      \<and> no_due_date t"
  then obtain v where v: "task_item Number t = Inr v" and o: "out = stringify v"
    by (auto simp: task_def api_eq bindE_eq_Inr json_def)
  from task_item_due [OF v] a o show "\<exists>ps. out = Some (JObj ps) \<and> map_of ps ''due'' = Some JNull"
    by auto
next
  assume a: "search cfg Number String up q team a db da lg = (Inr out', lg @ [req])
      \<and> api_response (up lg req) = Inr res \<and> get res ''tasks'' = Inr (Arr ts)
      \<and> i < length ts \<and> i < 20 \<and> no_due_date (ts ! i)"
  then have s: "search cfg Number String up q team a db da lg = (Inr out', lg @ [req])" by simp
  from search_Inr [OF s] a obtain vs where
    m: "mapE (search_item Number) (take 20 ts) = Inr vs"
    and out: "out' = Some (JArr (stringify_elems vs))"
    by (auto simp: js_or_def)
  have i: "i < length (take 20 ts)" using a by simp
  have f: "search_item Number (ts ! i) = Inr (vs ! i)"
    using mapE_Inr_nth [OF m i] i by simp
  from a have nd: "no_due_date (ts ! i)" by simp
  from search_item_due [OF f nd] obtain ps where
    ps: "stringify (vs ! i) = Some (JObj ps)" "map_of ps ''due'' = Some JNull" by blast
  have iv: "i < length vs" using mapE_Inr_length [OF m] i by simp
  then have "stringify_elems vs ! i = JObj ps"
    using ps by (simp add: nth_stringify_elems)
  with out iv ps show "\<exists>items ps. out' = Some (JArr items) \<and> i < length items
             \<and> items ! i = JObj ps \<and> map_of ps ''due'' = Some JNull"
    by auto
qed

theorem due_is_null_when_unset_witness:
  "no_due_date task_plain
   \<and> (\<exists>ps. fst (task cfg_w Number_w (respond (ok_json task_plain)) ''t1'' [])
              = Inr (Some (JObj ps))
           \<and> map_of ps ''due'' = Some JNull)
   \<and> (\<exists>items ps. fst (search cfg_w Number_w String_w up_two_tasks ''bug'' None None None None [])
                   = Inr (Some (JArr items))
                \<and> items ! 0 = JObj ps \<and> map_of ps ''due'' = Some JNull)"
proof -
  let ?out = "Some (JObj [(''id'', JStr ''t1''), (''name'', JStr ''T1''), (''due'', JNull),
                          (''url'', JStr ''https://app/t1'')])"
  let ?req = "api_request cfg_w ''GET'' ''/task/t1'' None"
  let ?outs = "Some (JArr [JObj [(''id'', JStr ''t1''), (''name'', JStr ''T1''), (''due'', JNull),
                                 (''url'', JStr ''https://app/t1'')],
                           JObj [(''id'', JStr ''t2''), (''name'', JStr ''T2''), (''due'', JNum 17),
                                 (''url'', JStr ''https://app/t2'')]])"
  let ?reqs = "api_request cfg_w ''GET'' ''/team/9/task?query=bug'' None"
  have nd: "no_due_date task_plain"
    by (simp add: no_due_date_def task_plain_def)
  have h1: "task cfg_w Number_w (respond (ok_json task_plain)) ''t1'' [] = (Inr ?out, [?req])"
    by (simp add: task_def task_item_def task_plain_def run_defs)
  have h2: "api_response (respond (ok_json task_plain) [] ?req) = Inr task_plain"
    by (simp add: run_defs)
  have h3: "search cfg_w Number_w String_w up_two_tasks ''bug'' None None None None []
              = (Inr ?outs, [] @ [?reqs])"
    by (simp add: search_def search_item_def up_two_tasks_def task_plain_def task_due_def
          Number_w_def urlencode_def urlencode_byte_def unreserved_def run_defs)
  have h4: "api_response (up_two_tasks [] ?reqs) = Inr (Obj [(''tasks'', Arr [task_plain, task_due])])"
    by (simp add: up_two_tasks_def run_defs)
  note inst = due_is_null_when_unset
    [where cfg = cfg_w and Number = Number_w and up = "respond (ok_json task_plain)"
       and ident = "''t1''" and lg = "[]" and out = ?out and lg' = "[?req]" and t = task_plain]
  note inst2 = due_is_null_when_unset
    [where cfg = cfg_w and Number = Number_w and String = String_w and up = up_two_tasks and q = "''bug''" and team = None
       and a = None and db = None and da = None and lg = "[]" and out' = ?outs and req = ?reqs
       and res = "Obj [(''tasks'', Arr [task_plain, task_due])]"
       and ts = "[task_plain, task_due]" and i = 0]
  from inst h1 h2 nd have c1: "\<exists>ps. ?out = Some (JObj ps) \<and> map_of ps ''due'' = Some JNull"
    by (simp add: api_request_def)
  from inst2 h3 h4 nd have c2: "\<exists>items ps. ?outs = Some (JArr items) \<and> 0 < length items
        \<and> items ! 0 = JObj ps \<and> map_of ps ''due'' = Some JNull"
    by simp
  show ?thesis using nd c1 c2 h1 h3 by simp
qed

section \<open>Absent collections\<close>

text \<open>
  Claim C9, as the specification states it: every projection shapes an absent collection
  to an empty sequence, so \<^verbatim>\<open>task\<close> returns empty \<^verbatim>\<open>tags\<close> and \<^verbatim>\<open>assignees\<close> for an
  upstream task that has neither. It does not hold: \<^verbatim>\<open>task.tags?.map(...)\<close> is
  \<^verbatim>\<open>undefined\<close> for such a task, and \<^verbatim>\<open>JSON.stringify\<close> leaves the two properties out.
\<close>

theorem task_without_tags_counterexample:
  "fst (task cfg_w Number_w (respond (ok_json task_plain)) ''t1'' [])
     = Inr (Some (JObj [(''id'', JStr ''t1''), (''name'', JStr ''T1''), (''due'', JNull),
                        (''url'', JStr ''https://app/t1'')]))
   \<and> lacks task_plain ''tags'' \<and> lacks task_plain ''assignees''"
  by (simp add: task_def task_item_def task_plain_def lacks_def run_defs)

text \<open>
  Claim C9, amended: the projections of \<^verbatim>\<open>hierarchy\<close> shape an absent collection (the
  lists of a folder, the folders and the lists of a space, the team or its members, the
  spaces) to an empty sequence. The projections of \<^verbatim>\<open>task\<close> and \<^verbatim>\<open>search\<close> accept an
  upstream task without \<^verbatim>\<open>tags\<close> or \<^verbatim>\<open>assignees\<close> without error, and the task returned
  then has no such field.
\<close>

theorem absent_collections:
  "(lacks f ''lists'' \<longrightarrow>
      (\<exists>i n. folder_item f = Inr (Obj [(''id'', i), (''name'', n), (''lists'', Arr [])])))
   \<and> (lacks foldersRes ''folders'' \<and> lacks listsRes ''lists''
        \<and> get sp ''id'' = Inr i \<and> get sp ''name'' = Inr n \<longrightarrow>
      space_item sp foldersRes listsRes
        = Inr (Obj [(''id'', i), (''name'', n), (''folders'', Arr []), (''lists'', Arr [])]))
   \<and> (lacks teamInfo ''team'' \<longrightarrow> members_of teamInfo = Inr (Arr []))
   \<and> (get teamInfo ''team'' = Inr tm \<and> lacks tm ''members'' \<longrightarrow>
      members_of teamInfo = Inr (Arr []))
   \<and> (lacks spacesRes ''spaces'' \<and> members_of teamInfo = Inr members \<longrightarrow>
      hierarchy_tree cfg String up teamInfo spacesRes lg
        = (Inr (json (Obj [(''spaces'', Arr []), (''members'', members)])), lg))
   \<and> (api_response (up lg (api_request cfg ''GET'' (''/task/'' @ ident) None)) = Inr t
        \<and> lacks t ''tags'' \<and> lacks t ''assignees'' \<longrightarrow>
      (\<exists>ps. fst (task cfg Number up ident lg) = Inr (Some (JObj ps))
            \<and> map_of ps ''tags'' = None \<and> map_of ps ''assignees'' = None))
   \<and> (lacks t' ''assignees'' \<longrightarrow>
      (\<exists>v ps. search_item Number t' = Inr v \<and> stringify v = Some (JObj ps)
              \<and> map_of ps ''assignees'' = None))"
proof (intro conjI impI)
  assume a: "lacks f ''lists''"
  from lacks_Obj [OF a] obtain ps where "f = Obj ps" by blast
  then show "\<exists>i n. folder_item f = Inr (Obj [(''id'', i), (''name'', n), (''lists'', Arr [])])"
    using lacks_get [OF a] by (simp add: folder_item_def js_or_def)
next
  assume "lacks foldersRes ''folders'' \<and> lacks listsRes ''lists''
        \<and> get sp ''id'' = Inr i \<and> get sp ''name'' = Inr n"
  then show "space_item sp foldersRes listsRes
        = Inr (Obj [(''id'', i), (''name'', n), (''folders'', Arr []), (''lists'', Arr [])])"
    by (simp add: space_item_def js_or_def lacks_get)
next
  assume "lacks teamInfo ''team''"
  then show "members_of teamInfo = Inr (Arr [])"
    by (simp add: members_of_def js_or_def lacks_get)
next
  assume a: "get teamInfo ''team'' = Inr tm \<and> lacks tm ''members''"
  then obtain ps where "tm = Obj ps" using lacks_Obj by blast
  with a show "members_of teamInfo = Inr (Arr [])"
    by (simp add: members_of_def js_or_def lacks_def)
next
  assume "lacks spacesRes ''spaces'' \<and> members_of teamInfo = Inr members"
  then show "hierarchy_tree cfg String up teamInfo spacesRes lg
        = (Inr (json (Obj [(''spaces'', Arr []), (''members'', members)])), lg)"
    by (simp add: hierarchy_tree_def js_or_def lacks_get)
next
  assume a: "api_response (up lg (api_request cfg ''GET'' (''/task/'' @ ident) None)) = Inr t
        \<and> lacks t ''tags'' \<and> lacks t ''assignees''"
  with task_item_lacking [of t Number] obtain v ps where
    "task_item Number t = Inr v" "stringify v = Some (JObj ps)"
    "map_of ps ''tags'' = None" "map_of ps ''assignees'' = None"
    by blast
  with a show "\<exists>ps. fst (task cfg Number up ident lg) = Inr (Some (JObj ps))
            \<and> map_of ps ''tags'' = None \<and> map_of ps ''assignees'' = None"
    by (simp add: task_def api_eq json_def)
next
  assume "lacks t' ''assignees''"
  then show "\<exists>v ps. search_item Number t' = Inr v \<and> stringify v = Some (JObj ps)
              \<and> map_of ps ''assignees'' = None"
    by (rule search_item_lacking)
qed

theorem absent_collections_witness:
  "lacks folder_plain ''lists''
   \<and> folder_item folder_plain
       = Inr (Obj [(''id'', Str ''f1''), (''name'', Str ''F1''), (''lists'', Arr [])])
   \<and> space_item space_1 (Obj []) (Obj [])
       = Inr (Obj [(''id'', Str ''s1''), (''name'', Str ''One''), (''folders'', Arr []),
                   (''lists'', Arr [])])
   \<and> members_of (Obj []) = Inr (Arr [])
   \<and> lacks task_plain ''tags'' \<and> lacks task_plain ''assignees''
   \<and> (\<exists>ps. fst (task cfg_w Number_w (respond (ok_json task_plain)) ''t1'' [])
              = Inr (Some (JObj ps))
           \<and> map_of ps ''tags'' = None \<and> map_of ps ''assignees'' = None)"
proof -
  have l1: "lacks folder_plain ''lists''"
    by (simp add: lacks_def folder_plain_def)
  have l2: "lacks (Obj []) ''folders'' \<and> lacks (Obj []) ''lists''
             \<and> get space_1 ''id'' = Inr (Str ''s1'') \<and> get space_1 ''name'' = Inr (Str ''One'')"
    by (simp add: lacks_def space_1_def)
  have l3: "lacks (Obj []) ''team''"
    by (simp add: lacks_def)
  have l4: "api_response (respond (ok_json task_plain) [] (api_request cfg_w ''GET'' (''/task/'' @ ''t1'') None))
              = Inr task_plain
            \<and> lacks task_plain ''tags'' \<and> lacks task_plain ''assignees''"
    by (simp add: lacks_def task_plain_def run_defs)
  note inst = absent_collections
    [where f = folder_plain and foldersRes = "Obj []" and listsRes = "Obj []" and sp = space_1
       and i = "Str ''s1''" and n = "Str ''One''" and teamInfo = "Obj []"
       and up = "respond (ok_json task_plain)" and lg = "[]" and cfg = cfg_w and ident = "''t1''"
       and String = String_w
       and t = task_plain and Number = Number_w]
  from inst l1 l2 l3 l4 show ?thesis
    by (simp add: folder_item_def folder_plain_def js_or_def)
qed

section \<open>update: the transmitted body\<close>

text \<open>
  Claim C5: every \<^verbatim>\<open>update\<close> issues one \<^verbatim>\<open>PUT\<close> whose body is an object holding exactly
  the supplied fields among name, description, status, priority and due date: a supplied
  field is present with the supplied value (a due date of 0 as \<^verbatim>\<open>null\<close>), an omitted field
  is not in the body, and the body has no other key. (What the upstream service does with
  an omitted field is its own behaviour, outside this program.)
\<close>

theorem update_sends_exactly_supplied_fields:
  "\<exists>b. snd (update cfg up ident name desc status priority due lg) =
          lg @ [\<lparr>req_method = ''PUT'', req_url = API @ ''/task/'' @ ident,
                  req_headers = headers cfg, req_body = Some (JObj b)\<rparr>]
       \<and> map_of b ''name'' = map_option JStr name
       \<and> map_of b ''description'' = map_option JStr desc
       \<and> map_of b ''status'' = map_option JStr status
       \<and> map_of b ''priority'' = map_option JNum priority
       \<and> map_of b ''due_date'' = map_option (\<lambda>d. if d = 0 then JNull else JNum d) due
       \<and> set (map fst b) \<subseteq> {''name'', ''description'', ''status'', ''priority'', ''due_date''}
       \<and> distinct (map fst b)"
  by (cases name; cases desc; cases status; cases priority; cases due)
     (simp_all add: update_def api_eq api_request_def update_body_def js_or_def)

text \<open>
  Claim C6: an \<^verbatim>\<open>update\<close> with due supplied as 0 transmits an explicit \<^verbatim>\<open>null\<close> for the due
  date; a supplied due value other than 0 is transmitted unchanged.
\<close>

theorem update_due_zero_is_null:
  "(\<exists>b. req_body (last (snd (update cfg up ident name desc status priority (Some 0) lg)))
          = Some (JObj b)
        \<and> map_of b ''due_date'' = Some JNull)
   \<and> (d \<noteq> 0 \<longrightarrow>
        (\<exists>b. req_body (last (snd (update cfg up ident name desc status priority (Some d) lg)))
               = Some (JObj b)
             \<and> map_of b ''due_date'' = Some (JNum d)))"
  by (cases name; cases desc; cases status; cases priority)
     (simp_all add: update_def api_eq api_request_def update_body_def js_or_def)

theorem update_due_zero_is_null_witness:
  "(1700000000000 :: int) \<noteq> 0
   \<and> req_body (last (snd (update cfg_w (respond (ok_json (Obj []))) ''t1'' None None None None
                            (Some 1700000000000) [])))
       = Some (JObj [(''due_date'', JNum 1700000000000)])
   \<and> req_body (last (snd (update cfg_w (respond (ok_json (Obj []))) ''t1'' (Some ''T'') None None None
                            (Some 0) [])))
       = Some (JObj [(''name'', JStr ''T''), (''due_date'', JNull)])"
  using update_due_zero_is_null
          [of cfg_w "respond (ok_json (Obj []))" "''t1''" None None None None "[]" 1700000000000]
  by (simp add: update_def api_eq api_request_def update_body_def js_or_def)

end
